theory Spec2Isabelle
  imports Main "HOL-Library.AList" "HOL-Library.Char_ord" "HOL-Library.List_Lexorder"
    "HOL-Library.Sublist"
begin

section \<open>JavaScript values\<close>

text \<open>
  The store of \<^verbatim>\<open>Frontend/lib/mongodb.ts\<close> is typed \<^verbatim>\<open>any\<close> throughout, so the
  embedding starts with the values the code can hold. A plain object is its list of
  own properties in property order (the order \<^verbatim>\<open>Object.keys\<close> and
  \<^verbatim>\<open>JSON.stringify\<close> walk); \<open>JObjectId\<close> is an instance of the file's class
  \<^verbatim>\<open>ObjectId\<close>, whose only field is the private string \<^verbatim>\<open>id\<close>.

  Limits of the model, fixed here once:
  \<^item> numbers are integers (of a magnitude a double represents exactly); \<^verbatim>\<open>NaN\<close>,
    infinities and fractions are not values of the model;
  \<^item> strings are lists of 8-bit characters, compared by character code as JavaScript
    compares code units;
  \<^item> two objects (or arrays) met by \<^verbatim>\<open>===\<close> or \<^verbatim>\<open>includes\<close> are taken to be
    different heap objects, as every object of a stored document read back by
    \<^verbatim>\<open>JSON.parse\<close> and every object literal of a query is; so such a comparison is false;
  \<^item> property names are not canonical array indices (which an engine would move to the
    front of the property order) and do not shadow \<^verbatim>\<open>toString\<close> or \<^verbatim>\<open>valueOf\<close>;
  \<^item> a document is a value: the documents handed to the store are different objects,
    and a caller does not assign to a document it handed over or received.
\<close>

datatype jsval =
    JUndefined
  | JNull
  | JBool bool
  | JNum int
  | JStr string
  | JArr "jsval list"
  | JObj "(string \<times> jsval) list"
  | JObjectId string

type_synonym doc = "(string \<times> jsval) list"

datatype error =
    SyntaxError          \<comment> \<open>\<^verbatim>\<open>JSON.parse\<close> or \<^verbatim>\<open>new RegExp\<close> rejects its text\<close>
  | TypeError            \<comment> \<open>a method is called on \<^verbatim>\<open>undefined\<close> or \<^verbatim>\<open>null\<close>\<close>
  | QuotaExceededError   \<comment> \<open>\<^verbatim>\<open>localStorage.setItem\<close> refuses the write\<close>
  | NotModelled          \<comment> \<open>the code returns a value that the model cannot compute\<close>

text \<open>\<^verbatim>\<open>d[key]\<close> on a document: \<^verbatim>\<open>undefined\<close> when the property is absent.\<close>

definition get :: "doc \<Rightarrow> string \<Rightarrow> jsval" where
  "get d k = (case map_of d k of None \<Rightarrow> JUndefined | Some v \<Rightarrow> v)"

text \<open>\<^verbatim>\<open>d[key] = v\<close>: an existing property keeps its place, a new one goes last.\<close>

definition put :: "doc \<Rightarrow> string \<Rightarrow> jsval \<Rightarrow> doc" where
  "put d k v = AList.update k v d"

text \<open>\<^verbatim>\<open>q.$op\<close> for an operand \<open>q\<close> that passed \<^verbatim>\<open>typeof q === 'object'\<close>; the names
  read this way are the operator names, which an array does not have.\<close>

fun member_of :: "jsval \<Rightarrow> string \<Rightarrow> jsval" where
  "member_of (JObj d) k = get d k"
| "member_of (JObjectId s) k = (if k = ''id'' then JStr s else JUndefined)"
| "member_of _ k = JUndefined"

fun truthy :: "jsval \<Rightarrow> bool" where
  "truthy JUndefined = False"
| "truthy JNull = False"
| "truthy (JBool b) = b"
| "truthy (JNum n) = (n \<noteq> 0)"
| "truthy (JStr s) = (s \<noteq> [])"
| "truthy _ = True"

text \<open>\<^verbatim>\<open>typeof v === 'object' && v !== null\<close>.\<close>

fun is_object :: "jsval \<Rightarrow> bool" where
  "is_object (JArr xs) = True"
| "is_object (JObj d) = True"
| "is_object (JObjectId s) = True"
| "is_object _ = False"

fun isArray :: "jsval \<Rightarrow> bool" where
  "isArray (JArr xs) = True"
| "isArray _ = False"

fun elements :: "jsval \<Rightarrow> jsval list" where
  "elements (JArr xs) = xs"
| "elements _ = []"

text \<open>\<^verbatim>\<open>a === b\<close>; on the values of the model \<^verbatim>\<open>Array.prototype.includes\<close> compares the same way.\<close>

fun strict_eq :: "jsval \<Rightarrow> jsval \<Rightarrow> bool" where
  "strict_eq JUndefined JUndefined = True"
| "strict_eq JNull JNull = True"
| "strict_eq (JBool a) (JBool b) = (a = b)"
| "strict_eq (JNum a) (JNum b) = (a = b)"
| "strict_eq (JStr a) (JStr b) = (a = b)"
| "strict_eq _ _ = False"

definition array_includes :: "jsval list \<Rightarrow> jsval \<Rightarrow> bool" where
  "array_includes xs v = list_ex (\<lambda>x. strict_eq x v) xs"

subsection \<open>Conversion to strings\<close>

fun show_nat :: "nat \<Rightarrow> string" where
  "show_nat n =
     (if n < 10 then [''0123456789'' ! n]
      else show_nat (n div 10) @ [''0123456789'' ! (n mod 10)])"

declare show_nat.simps [simp del]

definition show_int :: "int \<Rightarrow> string" where
  "show_int i = (if i < 0 then CHR ''-'' # show_nat (nat (- i)) else show_nat (nat i))"

fun join :: "string \<Rightarrow> string list \<Rightarrow> string" where
  "join sep [] = []"
| "join sep [x] = x"
| "join sep (x # y # ys) = x @ sep @ join sep (y # ys)"

text \<open>\<^verbatim>\<open>String(v)\<close>, which is also \<^verbatim>\<open>v.toString()\<close> for every \<open>v\<close> but
  \<^verbatim>\<open>undefined\<close> and \<^verbatim>\<open>null\<close>. An array joins its elements with commas, an empty
  text standing for \<^verbatim>\<open>undefined\<close> and \<^verbatim>\<open>null\<close>; the class \<^verbatim>\<open>ObjectId\<close>
  overrides \<^verbatim>\<open>toString\<close> to return its \<^verbatim>\<open>id\<close>.\<close>

fun ToString :: "jsval \<Rightarrow> string" where
  "ToString JUndefined = ''undefined''"
| "ToString JNull = ''null''"
| "ToString (JBool b) = (if b then ''true'' else ''false'')"
| "ToString (JNum n) = show_int n"
| "ToString (JStr s) = s"
| "ToString (JArr xs) =
     join '','' (map (\<lambda>x. if x = JUndefined \<or> x = JNull then [] else ToString x) xs)"
| "ToString (JObj d) = ''[object Object]''"
| "ToString (JObjectId s) = s"

subsection \<open>\<^verbatim>\<open>JSON.stringify\<close>\<close>

definition hex_digit :: "nat \<Rightarrow> char" where
  "hex_digit n = ''0123456789abcdef'' ! (n mod 16)"

definition json_escape :: "char \<Rightarrow> string" where
  "json_escape c =
     (if c = CHR 0x22 then [CHR 0x5C, CHR 0x22]
      else if c = CHR 0x5C then [CHR 0x5C, CHR 0x5C]
      else if c = CHR 0x08 then [CHR 0x5C, CHR ''b'']
      else if c = CHR 0x0C then [CHR 0x5C, CHR ''f'']
      else if c = CHR 0x0A then [CHR 0x5C, CHR ''n'']
      else if c = CHR 0x0D then [CHR 0x5C, CHR ''r'']
      else if c = CHR 0x09 then [CHR 0x5C, CHR ''t'']
      else if of_char c < (32::nat)
        then [CHR 0x5C, CHR ''u'', CHR ''0'', CHR ''0'',
              hex_digit (of_char c div 16), hex_digit (of_char c)]
      else [c])"

definition json_quote :: "string \<Rightarrow> string" where
  "json_quote s = CHR 0x22 # concat (map json_escape s) @ [CHR 0x22]"

text \<open>\<open>None\<close> is the result \<^verbatim>\<open>undefined\<close>. In an array \<^verbatim>\<open>undefined\<close> is written
  \<^verbatim>\<open>null\<close>; in an object a property holding \<^verbatim>\<open>undefined\<close> is left out. An
  \<^verbatim>\<open>ObjectId\<close> is written as the object of its one field.\<close>

fun JSON_stringify :: "jsval \<Rightarrow> string option" where
  "JSON_stringify JUndefined = None"
| "JSON_stringify JNull = Some ''null''"
| "JSON_stringify (JBool b) = Some (if b then ''true'' else ''false'')"
| "JSON_stringify (JNum n) = Some (show_int n)"
| "JSON_stringify (JStr s) = Some (json_quote s)"
| "JSON_stringify (JArr xs) =
     Some (''['' @ join '',''
       (map (\<lambda>x. case JSON_stringify x of None \<Rightarrow> ''null'' | Some t \<Rightarrow> t) xs) @ '']'')"
| "JSON_stringify (JObj d) =
     Some (''{'' @ join '',''
       (concat (map (\<lambda>p. case JSON_stringify (snd p) of
                            None \<Rightarrow> []
                          | Some t \<Rightarrow> [json_quote (fst p) @ '':'' @ t]) d)) @ ''}'')"
| "JSON_stringify (JObjectId s) = Some (''{'' @ json_quote ''id'' @ '':'' @ json_quote s @ ''}'')"

subsection \<open>Conversion to numbers and the relational operators\<close>

text \<open>The result of \<^verbatim>\<open>ToNumber\<close>. \<open>Unknown\<close> is a number the model does not
  compute: one written as a fraction, with an exponent, as an infinity or as a binary, octal or
  hexadecimal literal, or an integer too large for a double to hold exactly. A comparison
  that needs one is reported as \<open>NotModelled\<close>, never guessed.\<close>

datatype number = NaN | Finite int | Unknown

definition is_space :: "char \<Rightarrow> bool" where
  "is_space c = (c \<in> set [CHR 0x09, CHR 0x0A, CHR 0x0B, CHR 0x0C, CHR 0x0D, CHR 0x20, CHR 0xA0])"

definition trim :: "string \<Rightarrow> string" where
  "trim s = rev (dropWhile is_space (rev (dropWhile is_space s)))"

definition is_digit :: "char \<Rightarrow> bool" where
  "is_digit c = (c \<in> set ''0123456789'')"

definition digits_value :: "string \<Rightarrow> int" where
  "digits_value s = foldl (\<lambda>a c. 10 * a + (int (of_char c) - 48)) 0 s"

text \<open>An integer is \<open>Finite\<close> when a double holds it exactly.\<close>

definition exact :: "int \<Rightarrow> number" where
  "exact n = (if \<bar>n\<bar> \<le> 9007199254740992 then Finite n else Unknown)"

text \<open>\<^verbatim>\<open>ToNumber\<close> of a string follows the grammar \<^verbatim>\<open>StringNumericLiteral\<close>: the text is
  trimmed; blank text is 0; an optionally signed run of decimal digits is its value; any
  other text of the grammar (a fraction, an exponent, an infinity, a binary, octal or
  hexadecimal literal) is a number that the model does not compute; every text outside
  the grammar, such as \<^verbatim>\<open>12abc\<close>, \<^verbatim>\<open>2024-05-01\<close> or \<^verbatim>\<open>1,2\<close>, is \<^verbatim>\<open>NaN\<close>.\<close>

definition is_sign :: "char \<Rightarrow> bool" where
  "is_sign c = (c = CHR ''+'' \<or> c = CHR ''-'')"

definition signed_digits :: "string \<Rightarrow> bool" where
  "signed_digits x =
     (if x \<noteq> [] \<and> is_sign (hd x) then tl x \<noteq> [] \<and> list_all is_digit (tl x)
      else x \<noteq> [] \<and> list_all is_digit x)"

definition signed_value :: "string \<Rightarrow> int" where
  "signed_value x =
     (if x \<noteq> [] \<and> hd x = CHR ''-'' then - digits_value (tl x)
      else if x \<noteq> [] \<and> hd x = CHR ''+'' then digits_value (tl x)
      else digits_value x)"

definition exponent_part :: "string \<Rightarrow> bool" where
  "exponent_part r = (r \<noteq> [] \<and> (hd r = CHR ''e'' \<or> hd r = CHR ''E'') \<and> signed_digits (tl r))"

definition unsigned_decimal :: "string \<Rightarrow> bool" where
  "unsigned_decimal u =
     (u = ''Infinity'' \<or>
      (let ds = takeWhile is_digit u; r = dropWhile is_digit u in
       if ds \<noteq> [] then
         r = [] \<or> exponent_part r \<or>
         (r \<noteq> [] \<and> hd r = CHR ''.'' \<and>
          (let r2 = dropWhile is_digit (tl r) in r2 = [] \<or> exponent_part r2))
       else
         r \<noteq> [] \<and> hd r = CHR ''.'' \<and> takeWhile is_digit (tl r) \<noteq> [] \<and>
         (let r2 = dropWhile is_digit (tl r) in r2 = [] \<or> exponent_part r2)))"

definition non_decimal :: "string \<Rightarrow> bool" where
  "non_decimal t =
     (case t of
        z # x # ds \<Rightarrow>
          z = CHR ''0'' \<and> ds \<noteq> [] \<and>
          ((x \<in> set ''xX'' \<and> list_all (\<lambda>c. c \<in> set ''0123456789abcdefABCDEF'') ds) \<or>
           (x \<in> set ''oO'' \<and> list_all (\<lambda>c. c \<in> set ''01234567'') ds) \<or>
           (x \<in> set ''bB'' \<and> list_all (\<lambda>c. c \<in> set ''01'') ds))
      | _ \<Rightarrow> False)"

definition numeric_literal :: "string \<Rightarrow> bool" where
  "numeric_literal t =
     (non_decimal t \<or> unsigned_decimal (if t \<noteq> [] \<and> is_sign (hd t) then tl t else t))"

definition StringToNumber :: "string \<Rightarrow> number" where
  "StringToNumber s =
     (let t = trim s in
      if t = [] then Finite 0
      else if signed_digits t then exact (signed_value t)
      else if numeric_literal t then Unknown
      else NaN)"

fun ToNumber :: "jsval \<Rightarrow> number" where
  "ToNumber JUndefined = NaN"
| "ToNumber JNull = Finite 0"
| "ToNumber (JBool b) = Finite (if b then 1 else 0)"
| "ToNumber (JNum n) = Finite n"
| "ToNumber (JStr s) = StringToNumber s"
| "ToNumber v = StringToNumber (ToString v)"

text \<open>\<^verbatim>\<open>ToPrimitive\<close>: an array, an object and an \<^verbatim>\<open>ObjectId\<close> become their
  \<^verbatim>\<open>toString()\<close>.\<close>

definition ToPrimitive :: "jsval \<Rightarrow> jsval" where
  "ToPrimitive v = (if is_object v then JStr (ToString v) else v)"

text \<open>The comparison \<open>x < y\<close> of the language: two strings are compared as strings,
  anything else as numbers; \<open>None\<close> is the result \<^verbatim>\<open>undefined\<close> that a
  \<^verbatim>\<open>NaN\<close> operand gives.\<close>

definition js_less :: "jsval \<Rightarrow> jsval \<Rightarrow> error + bool option" where
  "js_less x y =
     (case (ToPrimitive x, ToPrimitive y) of
        (JStr s, JStr t) \<Rightarrow> Inr (Some (s < t))
      | (px, py) \<Rightarrow>
          (case (ToNumber px, ToNumber py) of
             (NaN, _) \<Rightarrow> Inr None
           | (_, NaN) \<Rightarrow> Inr None
           | (Finite m, Finite n) \<Rightarrow> Inr (Some (m < n))
           | _ \<Rightarrow> Inl NotModelled))"

text \<open>\<^verbatim>\<open>a > b\<close>, \<^verbatim>\<open>a >= b\<close>, \<^verbatim>\<open>a < b\<close>, \<^verbatim>\<open>a <= b\<close>: each is false when the
  comparison underneath is \<^verbatim>\<open>undefined\<close>.\<close>

definition js_gt :: "jsval \<Rightarrow> jsval \<Rightarrow> error + bool" where
  "js_gt a b = (case js_less b a of Inl e \<Rightarrow> Inl e | Inr r \<Rightarrow> Inr (r = Some True))"

definition js_ge :: "jsval \<Rightarrow> jsval \<Rightarrow> error + bool" where
  "js_ge a b = (case js_less a b of Inl e \<Rightarrow> Inl e | Inr r \<Rightarrow> Inr (r = Some False))"

definition js_lt :: "jsval \<Rightarrow> jsval \<Rightarrow> error + bool" where
  "js_lt a b = (case js_less a b of Inl e \<Rightarrow> Inl e | Inr r \<Rightarrow> Inr (r = Some True))"

definition js_le :: "jsval \<Rightarrow> jsval \<Rightarrow> error + bool" where
  "js_le a b = (case js_less b a of Inl e \<Rightarrow> Inl e | Inr r \<Rightarrow> Inr (r = Some False))"

section \<open>The predicate matcher: \<^verbatim>\<open>deepCompare\<close>\<close>

text \<open>\<^verbatim>\<open>new RegExp(pattern, flags).test(subject)\<close> is the engine's, not the
  repository's: it is a parameter, \<open>None\<close> when the constructor raises
  \<^verbatim>\<open>SyntaxError\<close>.\<close>

type_synonym regexp = "string \<Rightarrow> string \<Rightarrow> string \<Rightarrow> bool option"

text \<open>\<^verbatim>\<open>typeof v === 'object'\<close>, which holds of \<^verbatim>\<open>null\<close> too.\<close>

definition typeof_object :: "jsval \<Rightarrow> bool" where
  "typeof_object v = (v = JNull \<or> is_object v)"

definition default_comparison :: "jsval \<Rightarrow> jsval \<Rightarrow> bool" where
  "default_comparison itemValue queryValue =
     (JSON_stringify itemValue = JSON_stringify queryValue)"

definition regex_operator :: "regexp \<Rightarrow> jsval \<Rightarrow> jsval \<Rightarrow> error + bool" where
  "regex_operator rx itemValue queryValue =
     (let flags = (if truthy (member_of queryValue ''$options'')
                   then member_of queryValue ''$options'' else JStr [])
      in case rx (ToString (member_of queryValue ''$regex'')) (ToString flags)
                 (ToString itemValue) of
           None \<Rightarrow> Inl SyntaxError
         | Some b \<Rightarrow> Inr b)"

text \<open>The chain of \<^verbatim>\<open>if (...) return ...\<close> of the source, in its order: the first
  operator that is present decides.\<close>

definition deepCompare :: "regexp \<Rightarrow> jsval \<Rightarrow> jsval \<Rightarrow> error + bool" where
  "deepCompare rx itemValue queryValue =
     (if truthy queryValue \<and> typeof_object queryValue then
        (if truthy (member_of queryValue ''$in'') \<and> isArray (member_of queryValue ''$in'')
           then Inr (array_includes (elements (member_of queryValue ''$in'')) itemValue)
         else if member_of queryValue ''$gt'' \<noteq> JUndefined
           then js_gt itemValue (member_of queryValue ''$gt'')
         else if member_of queryValue ''$gte'' \<noteq> JUndefined
           then js_ge itemValue (member_of queryValue ''$gte'')
         else if member_of queryValue ''$lt'' \<noteq> JUndefined
           then js_lt itemValue (member_of queryValue ''$lt'')
         else if member_of queryValue ''$lte'' \<noteq> JUndefined
           then js_le itemValue (member_of queryValue ''$lte'')
         else if member_of queryValue ''$ne'' \<noteq> JUndefined
           then Inr (\<not> strict_eq itemValue (member_of queryValue ''$ne''))
         else if truthy (member_of queryValue ''$regex'')
           then regex_operator rx itemValue queryValue
         else Inr (default_comparison itemValue queryValue))
      else Inr (default_comparison itemValue queryValue))"

section \<open>The document store\<close>

subsection \<open>The callbacks that select documents\<close>

definition keys :: "doc \<Rightarrow> string list" where
  "keys d = map fst d"

text \<open>The body of \<^verbatim>\<open>Object.keys(query).every(key => ...)\<close>: an object-valued entry
  goes to \<open>deepCompare\<close>, any other is compared with \<^verbatim>\<open>===\<close>.\<close>

definition field_matches :: "regexp \<Rightarrow> doc \<Rightarrow> doc \<Rightarrow> string \<Rightarrow> error + bool" where
  "field_matches rx query item key =
     (if typeof_object (get query key) \<and> get query key \<noteq> JNull
      then deepCompare rx (get item key) (get query key)
      else Inr (strict_eq (get item key) (get query key)))"

text \<open>\<^verbatim>\<open>Array.prototype.every\<close>, \<^verbatim>\<open>findIndex\<close>, \<^verbatim>\<open>find\<close> and \<^verbatim>\<open>filter\<close> with a
  callback that may raise: they walk from the left, stop at the first decisive
  element, and an exception of the callback leaves the walk.\<close>

fun every :: "('a \<Rightarrow> error + bool) \<Rightarrow> 'a list \<Rightarrow> error + bool" where
  "every p [] = Inr True"
| "every p (x # xs) =
     (case p x of Inl e \<Rightarrow> Inl e | Inr b \<Rightarrow> if b then every p xs else Inr False)"

fun findIndex :: "('a \<Rightarrow> error + bool) \<Rightarrow> 'a list \<Rightarrow> error + nat option" where
  "findIndex p [] = Inr None"
| "findIndex p (x # xs) =
     (case p x of
        Inl e \<Rightarrow> Inl e
      | Inr b \<Rightarrow>
          if b then Inr (Some 0)
          else (case findIndex p xs of
                  Inl e \<Rightarrow> Inl e
                | Inr None \<Rightarrow> Inr None
                | Inr (Some i) \<Rightarrow> Inr (Some (Suc i))))"

fun array_find :: "('a \<Rightarrow> error + bool) \<Rightarrow> 'a list \<Rightarrow> error + 'a option" where
  "array_find p [] = Inr None"
| "array_find p (x # xs) =
     (case p x of Inl e \<Rightarrow> Inl e | Inr b \<Rightarrow> if b then Inr (Some x) else array_find p xs)"

fun array_filter :: "('a \<Rightarrow> error + bool) \<Rightarrow> 'a list \<Rightarrow> error + 'a list" where
  "array_filter p [] = Inr []"
| "array_filter p (x # xs) =
     (case p x of
        Inl e \<Rightarrow> Inl e
      | Inr b \<Rightarrow>
          (case array_filter p xs of
             Inl e \<Rightarrow> Inl e
           | Inr ys \<Rightarrow> Inr (if b then x # ys else ys)))"

definition fields_match :: "regexp \<Rightarrow> doc \<Rightarrow> doc \<Rightarrow> error + bool" where
  "fields_match rx query item = every (field_matches rx query item) (keys query)"

text \<open>\<^verbatim>\<open>x instanceof ObjectId ? x.toString() : x\<close>.\<close>

definition id_string :: "jsval \<Rightarrow> jsval" where
  "id_string v = (case v of JObjectId s \<Rightarrow> JStr s | _ \<Rightarrow> v)"

text \<open>The callback that \<^verbatim>\<open>findOne\<close>, \<^verbatim>\<open>updateOne\<close> and \<^verbatim>\<open>deleteOne\<close> each
  spell out: a truthy \<^verbatim>\<open>query._id\<close> decides alone.\<close>

definition selects :: "regexp \<Rightarrow> doc \<Rightarrow> doc \<Rightarrow> error + bool" where
  "selects rx query item =
     (if truthy (get query ''_id'')
      then Inr (strict_eq (id_string (get item ''_id'')) (id_string (get query ''_id'')))
      else fields_match rx query item)"

subsection \<open>The two tiers of state\<close>

text \<open>
  \<^verbatim>\<open>localStorage\<close> holds one text per key. A text is represented by what
  \<^verbatim>\<open>JSON.parse\<close> makes of it: the array of documents it denotes, or \<open>Unparseable\<close>
  when \<^verbatim>\<open>JSON.parse\<close> raises (text that denotes anything but an array of objects is
  outside the model). So \<^verbatim>\<open>setItem(key, JSON.stringify(items))\<close> stores the documents
  as \<^verbatim>\<open>JSON.parse\<close> would read them back: \<open>reparse\<close> is the round trip through
  the text.
\<close>

fun reparse :: "jsval \<Rightarrow> jsval" where
  "reparse (JArr xs) = JArr (map (\<lambda>x. if x = JUndefined then JNull else reparse x) xs)"
| "reparse (JObj d) =
     JObj (concat (map (\<lambda>p. if snd p = JUndefined then [] else [(fst p, reparse (snd p))]) d))"
| "reparse (JObjectId s) = JObj [(''id'', JStr s)]"
| "reparse v = v"

definition reparse_doc :: "doc \<Rightarrow> doc" where
  "reparse_doc d =
     concat (map (\<lambda>p. if snd p = JUndefined then [] else [(fst p, reparse (snd p))]) d)"

datatype stored = Text "doc list" | Unparseable

record store =
  collectionCache :: "string \<rightharpoonup> doc list"
  localStorage :: "string \<rightharpoonup> stored"

text \<open>What a call reads from outside the store: the regular expression engine, the
  clock (\<^verbatim>\<open>new Date().toISOString()\<close>), the identifiers \<^verbatim>\<open>_generateId()\<close> draws
  (the \<open>k\<close>-th draw of the call), and whether \<^verbatim>\<open>localStorage.setItem\<close> raises.\<close>

record env =
  RegExp_test :: regexp
  toISOString :: string
  generateId :: "nat \<Rightarrow> string"
  setItem_throws :: bool

definition storage_key :: "string \<Rightarrow> string" where
  "storage_key name = ''mock_'' @ name"

text \<open>\<^verbatim>\<open>storedData ? JSON.parse(storedData) : []\<close>.\<close>

definition parse_stored :: "string \<Rightarrow> store \<Rightarrow> error + doc list" where
  "parse_stored name st =
     (case localStorage st (storage_key name) of
        None \<Rightarrow> Inr []
      | Some Unparseable \<Rightarrow> Inl SyntaxError
      | Some (Text data) \<Rightarrow> Inr data)"

text \<open>The readers use the cached array or parse the stored text and cache it.\<close>

definition read_items :: "string \<Rightarrow> store \<Rightarrow> (error + doc list) \<times> store" where
  "read_items name st =
     (case collectionCache st name of
        Some items \<Rightarrow> (Inr items, st)
      | None \<Rightarrow>
          (case parse_stored name st of
             Inl e \<Rightarrow> (Inl e, st)
           | Inr data \<Rightarrow>
               (Inr data, st\<lparr>collectionCache := (collectionCache st)(name \<mapsto> data)\<rparr>)))"

text \<open>The writers copy the cached array or parse the stored text, caching nothing yet.\<close>

definition load_items :: "string \<Rightarrow> store \<Rightarrow> error + doc list" where
  "load_items name st =
     (case collectionCache st name of
        Some items \<Rightarrow> Inr items
      | None \<Rightarrow> parse_stored name st)"

text \<open>The end of every writer: \<^verbatim>\<open>collectionCache[name] = items\<close>, then
  \<^verbatim>\<open>localStorage.setItem(`mock_${name}`, JSON.stringify(items))\<close>, then the result.\<close>

definition commit :: "env \<Rightarrow> string \<Rightarrow> doc list \<Rightarrow> 'r \<Rightarrow> store \<Rightarrow> (error + 'r) \<times> store" where
  "commit e name items r st =
     (let st1 = st\<lparr>collectionCache := (collectionCache st)(name \<mapsto> items)\<rparr>
      in if setItem_throws e then (Inl QuotaExceededError, st1)
         else (Inr r, st1\<lparr>localStorage :=
                 (localStorage st1)(storage_key name \<mapsto> Text (map reparse_doc items))\<rparr>))"

subsection \<open>The operations of \<^verbatim>\<open>collection(name)\<close>\<close>

record ack =
  acknowledged :: bool

record insertOneResult = ack +
  insertedId :: jsval

record insertManyResult = ack +
  insertedCount :: nat
  insertedIds :: "jsval list"

record updateResult = ack +
  matchedCount :: nat
  modifiedCount :: nat

record deleteResult = ack +
  deletedCount :: nat

text \<open>\<^verbatim>\<open>find(query).sort(sortOptions).toArray()\<close>: neither argument is read.\<close>

definition find_toArray :: "string \<Rightarrow> doc \<Rightarrow> doc \<Rightarrow> store \<Rightarrow> (error + doc list) \<times> store" where
  "find_toArray name query sortOptions st = read_items name st"

definition findOne :: "env \<Rightarrow> string \<Rightarrow> doc \<Rightarrow> store \<Rightarrow> (error + doc option) \<times> store" where
  "findOne e name query st =
     (case read_items name st of
        (Inl err, st') \<Rightarrow> (Inl err, st')
      | (Inr items, st') \<Rightarrow> (array_find (selects (RegExp_test e) query) items, st'))"

text \<open>The identifier and the timestamps \<^verbatim>\<open>insertOne\<close> and \<^verbatim>\<open>insertMany\<close> write
  into the document; \<open>k\<close> numbers the identifier drawn.\<close>

definition stamp :: "env \<Rightarrow> nat \<Rightarrow> doc \<Rightarrow> doc" where
  "stamp e k doc =
     (let doc1 = (if \<not> truthy (get doc ''_id'')
                  then put doc ''_id'' (JStr (generateId e k)) else doc);
          now = JStr (toISOString e);
          doc2 = put doc1 ''createdAt''
                   (if truthy (get doc1 ''createdAt'') then get doc1 ''createdAt'' else now)
      in put doc2 ''updatedAt'' now)"

definition insertOne :: "env \<Rightarrow> string \<Rightarrow> doc \<Rightarrow> store \<Rightarrow> (error + insertOneResult) \<times> store" where
  "insertOne e name doc st =
     (let doc' = stamp e 0 doc in
      case load_items name st of
        Inl err \<Rightarrow> (Inl err, st)
      | Inr items \<Rightarrow>
          commit e name (items @ [doc'])
            \<lparr>acknowledged = True, insertedId = get doc' ''_id''\<rparr> st)"

definition insertMany ::
  "env \<Rightarrow> string \<Rightarrow> doc list \<Rightarrow> store \<Rightarrow> (error + insertManyResult) \<times> store" where
  "insertMany e name docs st =
     (case load_items name st of
        Inl err \<Rightarrow> (Inl err, st)
      | Inr items \<Rightarrow>
          (let docs' = map (\<lambda>(k, doc). stamp e k doc) (enumerate 0 docs)
           in commit e name (items @ docs')
                \<lparr>acknowledged = True, insertedCount = length docs,
                 insertedIds = map (\<lambda>doc. get doc ''_id'') docs'\<rparr> st))"

text \<open>\<^verbatim>\<open>Object.keys(v).map(key => [key, v[key]])\<close> for the value of \<^verbatim>\<open>update.$set\<close>.\<close>

fun Object_entries :: "jsval \<Rightarrow> (string \<times> jsval) list" where
  "Object_entries (JObj d) = map (\<lambda>k. (k, get d k)) (keys d)"
| "Object_entries (JArr xs) = zip (map show_nat [0..<length xs]) xs"
| "Object_entries (JStr s) = zip (map show_nat [0..<length s]) (map (\<lambda>c. JStr [c]) s)"
| "Object_entries (JObjectId s) = [(''id'', JStr s)]"
| "Object_entries _ = []"

definition apply_update :: "env \<Rightarrow> doc \<Rightarrow> doc \<Rightarrow> doc" where
  "apply_update e update item =
     (let item1 = (if truthy (get update ''$set'')
                   then fold (\<lambda>(key, v) d. put d key v) (Object_entries (get update ''$set'')) item
                   else item)
      in put item1 ''updatedAt'' (JStr (toISOString e)))"

definition updateOne ::
  "env \<Rightarrow> string \<Rightarrow> doc \<Rightarrow> doc \<Rightarrow> store \<Rightarrow> (error + updateResult) \<times> store" where
  "updateOne e name query update st =
     (case load_items name st of
        Inl err \<Rightarrow> (Inl err, st)
      | Inr items \<Rightarrow>
          (case findIndex (selects (RegExp_test e) query) items of
             Inl err \<Rightarrow> (Inl err, st)
           | Inr None \<Rightarrow>
               (Inr \<lparr>acknowledged = True, matchedCount = 0, modifiedCount = 0\<rparr>, st)
           | Inr (Some index) \<Rightarrow>
               commit e name (items[index := apply_update e update (items ! index)])
                 \<lparr>acknowledged = True, matchedCount = 1, modifiedCount = 1\<rparr> st))"

definition deleteOne :: "env \<Rightarrow> string \<Rightarrow> doc \<Rightarrow> store \<Rightarrow> (error + deleteResult) \<times> store" where
  "deleteOne e name query st =
     (case load_items name st of
        Inl err \<Rightarrow> (Inl err, st)
      | Inr items \<Rightarrow>
          (case findIndex (selects (RegExp_test e) query) items of
             Inl err \<Rightarrow> (Inl err, st)
           | Inr None \<Rightarrow> (Inr \<lparr>acknowledged = True, deletedCount = 0\<rparr>, st)
           | Inr (Some index) \<Rightarrow>
               commit e name (take index items @ drop (Suc index) items)
                 \<lparr>acknowledged = True, deletedCount = 1\<rparr> st))"

definition countDocuments :: "env \<Rightarrow> string \<Rightarrow> doc \<Rightarrow> store \<Rightarrow> (error + nat) \<times> store" where
  "countDocuments e name query st =
     (case read_items name st of
        (Inl err, st') \<Rightarrow> (Inl err, st')
      | (Inr items, st') \<Rightarrow>
          if length (keys query) = 0 then (Inr (length items), st')
          else (case array_filter (fields_match (RegExp_test e) query) items of
                  Inl err \<Rightarrow> (Inl err, st')
                | Inr matching \<Rightarrow> (Inr (length matching), st')))"

text \<open>\<^verbatim>\<open>invalidateCache(collectionName?)\<close>: an absent or empty name clears every entry.\<close>

definition invalidateCache :: "string option \<Rightarrow> store \<Rightarrow> store" where
  "invalidateCache collectionName st =
     (case collectionName of
        None \<Rightarrow> st\<lparr>collectionCache := Map.empty\<rparr>
      | Some name \<Rightarrow>
          if name \<noteq> [] then st\<lparr>collectionCache := (collectionCache st)(name := None)\<rparr>
          else st\<lparr>collectionCache := Map.empty\<rparr>)"

section \<open>The result cache of the services\<close>

text \<open>\<^verbatim>\<open>serviceCache: Record<string, { data: any; timestamp: number }>\<close> and the one
  expiration time every service compares with.\<close>

record cacheEntry =
  data :: jsval
  timestamp :: int

type_synonym serviceCache = "string \<rightharpoonup> cacheEntry"

definition CACHE_EXPIRATION :: int where
  "CACHE_EXPIRATION = 5 * 60 * 1000"

text \<open>\<^verbatim>\<open>{...design, id: design._id ? design._id.toString() : design._id}\<close>.\<close>

definition format_design :: "doc \<Rightarrow> doc" where
  "format_design design =
     put design ''id''
       (if truthy (get design ''_id'') then JStr (ToString (get design ''_id''))
        else get design ''_id'')"

text \<open>\<^verbatim>\<open>cachedData && (Date.now() - cachedData.timestamp) < CACHE_EXPIRATION\<close>, the
  test every cached service makes; \<open>Some\<close> is the data it then returns.\<close>

definition cache_hit :: "int \<Rightarrow> serviceCache \<Rightarrow> string \<Rightarrow> jsval option" where
  "cache_hit now cache cacheKey =
     (case cache cacheKey of
        None \<Rightarrow> None
      | Some cachedData \<Rightarrow>
          if now - timestamp cachedData < CACHE_EXPIRATION then Some (data cachedData) else None)"

text \<open>\<^verbatim>\<open>toObjectId(id)\<close> is \<^verbatim>\<open>new ObjectId(id)\<close>, whose constructor keeps
  \<^verbatim>\<open>id || this._generateId()\<close>.\<close>

definition toObjectId :: "env \<Rightarrow> string \<Rightarrow> jsval" where
  "toObjectId e id' = JObjectId (if id' \<noteq> [] then id' else generateId e 0)"

text \<open>Five services keep their result in \<^verbatim>\<open>serviceCache\<close>, each with the same
  statements around its own query: the test above, which returns \<^verbatim>\<open>cachedData.data\<close>;
  then the query, from which an exception leaves the cache as it is and a missing
  document returns \<^verbatim>\<open>null\<close> at once; then
  \<^verbatim>\<open>serviceCache[cacheKey] = { data, timestamp: Date.now() }\<close> and the return of the
  fresh data. \<open>compute\<close> is the query with its formatting: an exception, \<open>None\<close> for
  a document that was not found, or the data. \<open>now\<close> is the clock at the check of
  the cached entry, \<open>later\<close> the clock when the fresh result is stored.\<close>

definition cached_call ::
  "int \<Rightarrow> int \<Rightarrow> string \<Rightarrow> (store \<Rightarrow> (error + jsval option) \<times> store)
     \<Rightarrow> serviceCache \<times> store \<Rightarrow> (error + jsval) \<times> serviceCache \<times> store" where
  "cached_call now later cacheKey compute s =
     (let cache = fst s; st = snd s in
      case cache_hit now cache cacheKey of
        Some cached \<Rightarrow> (Inr cached, s)
      | None \<Rightarrow>
          (case compute st of
             (Inl err, st') \<Rightarrow> (Inl err, cache, st')
           | (Inr None, st') \<Rightarrow> (Inr JNull, cache, st')
           | (Inr (Some fresh), st') \<Rightarrow>
               (Inr fresh, cache(cacheKey \<mapsto> \<lparr>data = fresh, timestamp = later\<rparr>), st')))"

text \<open>\<^verbatim>\<open>db.collection(name).find({}).sort({ createdAt: -1 }).toArray()\<close> and the
  \<^verbatim>\<open>map\<close> over its result, as \<^verbatim>\<open>designService.getAll\<close> and
  \<^verbatim>\<open>projectService.getAll\<close> have them.\<close>

definition fetch_all :: "string \<Rightarrow> store \<Rightarrow> (error + jsval option) \<times> store" where
  "fetch_all name st =
     (case find_toArray name [] [(''createdAt'', JNum (- 1))] st of
        (Inl err, st') \<Rightarrow> (Inl err, st')
      | (Inr items, st') \<Rightarrow> (Inr (Some (JArr (map (\<lambda>d. JObj (format_design d)) items))), st'))"

text \<open>\<^verbatim>\<open>db.collection(name).findOne({ _id: toObjectId(id) })\<close>, then \<^verbatim>\<open>null\<close> for no
  document, else the document formatted; \<open>format\<close> may raise.\<close>

definition fetch_by_id ::
  "env \<Rightarrow> string \<Rightarrow> string \<Rightarrow> (doc \<Rightarrow> error + doc) \<Rightarrow> store \<Rightarrow> (error + jsval option) \<times> store" where
  "fetch_by_id e name id' format st =
     (case findOne e name [(''_id'', toObjectId e id')] st of
        (Inl err, st') \<Rightarrow> (Inl err, st')
      | (Inr None, st') \<Rightarrow> (Inr None, st')
      | (Inr (Some item), st') \<Rightarrow>
          (case format item of
             Inl err \<Rightarrow> (Inl err, st')
           | Inr formatted \<Rightarrow> (Inr (Some (JObj formatted)), st')))"

text \<open>\<^verbatim>\<open>{...project, id: project._id.toString()}\<close>: the method call raises a
  \<^verbatim>\<open>TypeError\<close> on \<^verbatim>\<open>undefined\<close> and \<^verbatim>\<open>null\<close>.\<close>

definition format_project :: "doc \<Rightarrow> error + doc" where
  "format_project project =
     (if get project ''_id'' = JUndefined \<or> get project ''_id'' = JNull then Inl TypeError
      else Inr (put project ''id'' (JStr (ToString (get project ''_id'')))))"

text \<open>\<^verbatim>\<open>{...user, _id: user._id ? user._id.toString() : user._id, password: undefined}\<close>.\<close>

definition format_user :: "doc \<Rightarrow> doc" where
  "format_user user =
     put (put user ''_id''
            (if truthy (get user ''_id'') then JStr (ToString (get user ''_id''))
             else get user ''_id''))
         ''password'' JUndefined"

text \<open>\<^verbatim>\<open>designService.getAll\<close>: \<^verbatim>\<open>withErrorHandling\<close> turns an exception into
  \<^verbatim>\<open>{data: null, error}\<close>, and the service returns \<^verbatim>\<open>result.data || []\<close>.\<close>

definition designService_getAll ::
  "int \<Rightarrow> int \<Rightarrow> serviceCache \<times> store \<Rightarrow> jsval \<times> serviceCache \<times> store" where
  "designService_getAll now later s =
     (case cached_call now later ''designs_getAll'' (fetch_all ''designs'') s of
        (Inl err, s') \<Rightarrow> (JArr [], s')
      | (Inr result, s') \<Rightarrow> (if truthy result then result else JArr [], s'))"

text \<open>\<^verbatim>\<open>designService.getById(id)\<close> returns \<^verbatim>\<open>result.data\<close>, which is \<^verbatim>\<open>null\<close> after
  an exception.\<close>

definition designService_getById ::
  "env \<Rightarrow> int \<Rightarrow> int \<Rightarrow> string \<Rightarrow> serviceCache \<times> store \<Rightarrow> jsval \<times> serviceCache \<times> store" where
  "designService_getById e now later id' s =
     (case cached_call now later (''design_'' @ id')
             (fetch_by_id e ''designs'' id' (\<lambda>d. Inr (format_design d))) s of
        (Inl err, s') \<Rightarrow> (JNull, s')
      | (Inr result, s') \<Rightarrow> (result, s'))"

text \<open>\<^verbatim>\<open>projectService.getAll\<close> catches an exception and returns \<^verbatim>\<open>[]\<close>.\<close>

definition projectService_getAll ::
  "int \<Rightarrow> int \<Rightarrow> serviceCache \<times> store \<Rightarrow> jsval \<times> serviceCache \<times> store" where
  "projectService_getAll now later s =
     (case cached_call now later ''projects_getAll'' (fetch_all ''projects'') s of
        (Inl err, s') \<Rightarrow> (JArr [], s')
      | (Inr result, s') \<Rightarrow> (result, s'))"

text \<open>\<^verbatim>\<open>projectService.getById(id)\<close> and \<^verbatim>\<open>userService.getById(id)\<close> catch an
  exception and return \<^verbatim>\<open>null\<close>.\<close>

definition projectService_getById ::
  "env \<Rightarrow> int \<Rightarrow> int \<Rightarrow> string \<Rightarrow> serviceCache \<times> store \<Rightarrow> jsval \<times> serviceCache \<times> store" where
  "projectService_getById e now later id' s =
     (case cached_call now later (''project_'' @ id')
             (fetch_by_id e ''projects'' id' format_project) s of
        (Inl err, s') \<Rightarrow> (JNull, s')
      | (Inr result, s') \<Rightarrow> (result, s'))"

definition userService_getById ::
  "env \<Rightarrow> int \<Rightarrow> int \<Rightarrow> string \<Rightarrow> serviceCache \<times> store \<Rightarrow> jsval \<times> serviceCache \<times> store" where
  "userService_getById e now later id' s =
     (case cached_call now later (''user_'' @ id')
             (fetch_by_id e ''users'' id' (\<lambda>u. Inr (format_user u))) s of
        (Inl err, s') \<Rightarrow> (JNull, s')
      | (Inr result, s') \<Rightarrow> (result, s'))"

text \<open>\<^verbatim>\<open>invalidateServiceCache(key?)\<close>. \<^verbatim>\<open>key.replace('*', '')\<close> removes the first
  asterisk of the key, wherever it stands.\<close>

definition invalidateServiceCache :: "string option \<Rightarrow> serviceCache \<Rightarrow> serviceCache" where
  "invalidateServiceCache key cache =
     (case key of
        None \<Rightarrow> Map.empty
      | Some k \<Rightarrow>
          if k \<noteq> [] then
            (if CHR ''*'' \<in> set k then
               (let pre = remove1 (CHR ''*'') k
                in (\<lambda>cacheKey. if prefix pre cacheKey then None else cache cacheKey))
             else cache(k := None))
          else Map.empty)"

section \<open>Vocabulary of the properties\<close>

text \<open>The four writers under one name, with what became of the call: it raised, it
  found no document to change, or it wrote.\<close>

datatype mutation = InsertOne doc | InsertMany "doc list" | UpdateOne doc doc | DeleteOne doc

datatype outcome = Raised error | NoMatch | Wrote

fun mutate :: "env \<Rightarrow> string \<Rightarrow> mutation \<Rightarrow> store \<Rightarrow> outcome \<times> store" where
  "mutate e name (InsertOne doc) st =
     (case insertOne e name doc st of
        (Inl err, st') \<Rightarrow> (Raised err, st')
      | (Inr r, st') \<Rightarrow> (Wrote, st'))"
| "mutate e name (InsertMany docs) st =
     (case insertMany e name docs st of
        (Inl err, st') \<Rightarrow> (Raised err, st')
      | (Inr r, st') \<Rightarrow> (Wrote, st'))"
| "mutate e name (UpdateOne query update) st =
     (case updateOne e name query update st of
        (Inl err, st') \<Rightarrow> (Raised err, st')
      | (Inr r, st') \<Rightarrow> (if matchedCount r = 0 then NoMatch else Wrote, st'))"
| "mutate e name (DeleteOne query) st =
     (case deleteOne e name query st of
        (Inl err, st') \<Rightarrow> (Raised err, st')
      | (Inr r, st') \<Rightarrow> (if deletedCount r = 0 then NoMatch else Wrote, st'))"

text \<open>The store in which \<open>items\<close> became the cached array of a collection, and the
  store in which they were persisted as well.\<close>

definition cached :: "string \<Rightarrow> doc list \<Rightarrow> store \<Rightarrow> store" where
  "cached name items st = st\<lparr>collectionCache := (collectionCache st)(name \<mapsto> items)\<rparr>"

definition committed :: "string \<Rightarrow> doc list \<Rightarrow> store \<Rightarrow> store" where
  "committed name items st =
     st\<lparr>collectionCache := (collectionCache st)(name \<mapsto> items),
        localStorage := (localStorage st)(storage_key name \<mapsto> Text (map reparse_doc items))\<rparr>"

text \<open>Values that \<^verbatim>\<open>JSON.parse\<close> can return: no \<^verbatim>\<open>undefined\<close>, no class instance.\<close>

fun json_plain :: "jsval \<Rightarrow> bool" where
  "json_plain JUndefined = False"
| "json_plain (JObjectId s) = False"
| "json_plain (JArr xs) = list_all json_plain xs"
| "json_plain (JObj d) = list_all (\<lambda>p. json_plain (snd p)) d"
| "json_plain v = True"

definition plain_doc :: "doc \<Rightarrow> bool" where
  "plain_doc d = list_all (\<lambda>p. json_plain (snd p)) d"

text \<open>The text \<^verbatim>\<open>JSON.stringify(items)\<close> of an array of documents.\<close>

definition stringify_items :: "doc list \<Rightarrow> string option" where
  "stringify_items items = JSON_stringify (JArr (map JObj items))"

text \<open>The four ways a writer can end, as the proofs below use them.\<close>

definition shape :: "env \<Rightarrow> string \<Rightarrow> store \<Rightarrow> outcome \<Rightarrow> store \<Rightarrow> bool" where
  "shape e name st out st' \<longleftrightarrow>
     (out = NoMatch \<and> st' = st)
   \<or> (\<exists>err. out = Raised err \<and> err \<noteq> QuotaExceededError \<and> st' = st)
   \<or> (\<exists>items. out = Wrote \<and> \<not> setItem_throws e \<and> st' = committed name items st)
   \<or> (\<exists>items. out = Raised QuotaExceededError \<and> setItem_throws e
         \<and> st' = cached name items st)"

text \<open>The keys that \<open>deepCompare\<close> reads in a filter value, and the test whether one of
  its operators is present there: the conditions of its chain of \<^verbatim>\<open>if\<close>.\<close>

definition operator_keys :: "string list" where
  "operator_keys =
     [''$in'', ''$gt'', ''$gte'', ''$lt'', ''$lte'', ''$ne'', ''$regex'', ''$options'']"

definition operator_present :: "doc \<Rightarrow> bool" where
  "operator_present d \<longleftrightarrow>
     (truthy (get d ''$in'') \<and> isArray (get d ''$in''))
   \<or> get d ''$gt'' \<noteq> JUndefined \<or> get d ''$gte'' \<noteq> JUndefined
   \<or> get d ''$lt'' \<noteq> JUndefined \<or> get d ''$lte'' \<noteq> JUndefined
   \<or> get d ''$ne'' \<noteq> JUndefined \<or> truthy (get d ''$regex'')"



text \<open>A cached service treats the entry under \<open>cacheKey\<close> as absent: it returns what
  it returns without the entry and leaves the store as it does without the entry,
  and the cache afterwards is the cache before, or the cache before with a fresh entry
  for the returned data under \<open>cacheKey\<close>.\<close>

definition treats_as_absent ::
  "(serviceCache \<times> store \<Rightarrow> jsval \<times> serviceCache \<times> store) \<Rightarrow> string \<Rightarrow> int
     \<Rightarrow> serviceCache \<Rightarrow> store \<Rightarrow> bool" where
  "treats_as_absent service cacheKey later cache st \<longleftrightarrow>
     fst (service (cache, st)) = fst (service (cache(cacheKey := None), st))
   \<and> snd (snd (service (cache, st))) = snd (snd (service (cache(cacheKey := None), st)))
   \<and> (fst (snd (service (cache, st))) = cache
      \<or> fst (snd (service (cache, st)))
          = cache(cacheKey \<mapsto> \<lparr>data = fst (service (cache, st)), timestamp = later\<rparr>))"

section \<open>Sample inputs\<close>

text \<open>Concrete inputs on which the theorems below are instantiated: an engine that
  rejects every pattern, a call environment whose write succeeds and one whose write
  is refused, the store of a fresh page, and a few documents, queries and cache
  entries.\<close>

definition no_RegExp :: regexp where
  "no_RegExp pat flags subject = None"

definition sample_env :: env where
  "sample_env =
     \<lparr>RegExp_test = no_RegExp, toISOString = ''2024-05-01T10:00:00.000Z'',
      generateId = (\<lambda>k. ''id_'' @ show_nat k), setItem_throws = False\<rparr>"

definition refusing_env :: env where
  "refusing_env = sample_env\<lparr>setItem_throws := True\<rparr>"

definition empty_store :: store where
  "empty_store = \<lparr>collectionCache = Map.empty, localStorage = Map.empty\<rparr>"

definition kitchen :: doc where
  "kitchen = [(''_id'', JStr ''d1''), (''category'', JStr ''Kitchen'')]"

definition living :: doc where
  "living = [(''_id'', JStr ''d2''), (''category'', JStr ''Living Room'')]"

definition designs_store :: store where
  "designs_store =
     \<lparr>collectionCache = Map.empty,
      localStorage = [''mock_designs'' \<mapsto> Text [kitchen, living]]\<rparr>"

definition designs_cached :: store where
  "designs_cached = designs_store\<lparr>collectionCache := [''designs'' \<mapsto> [kitchen, living]]\<rparr>"

definition age_range :: jsval where
  "age_range = JObj [(''$gte'', JNum 18), (''$lte'', JNum 65)]"

definition between_filter :: jsval where
  "between_filter = JObj [(''$between'', JArr [JNum 1, JNum 9])]"

definition set_style :: doc where
  "set_style = [(''$set'', JObj [(''style'', JStr ''Modern'')])]"


definition hall :: doc where
  "hall = [(''title'', JStr ''Hall'')]"

definition hall_stamped :: doc where
  "hall_stamped =
     [(''title'', JStr ''Hall''), (''_id'', JStr ''id_0''),
      (''createdAt'', JStr ''2024-05-01T10:00:00.000Z''),
      (''updatedAt'', JStr ''2024-05-01T10:00:00.000Z'')]"

definition zero_x :: doc where
  "zero_x = [(''_id'', JNum 0), (''name'', JStr ''x'')]"

definition zero_y :: doc where
  "zero_y = [(''_id'', JNum 0), (''name'', JStr ''y'')]"

definition users_store :: store where
  "users_store =
     \<lparr>collectionCache = Map.empty, localStorage = [''mock_users'' \<mapsto> Text [zero_y]]\<rparr>"

definition d2_kitchen :: doc where
  "d2_kitchen = [(''_id'', JStr ''d2''), (''category'', JStr ''Kitchen'')]"

definition stale_entry :: cacheEntry where
  "stale_entry = \<lparr>data = JArr [], timestamp = 1000\<rparr>"

definition stale_cache :: serviceCache where
  "stale_cache = [''designs_getAll'' \<mapsto> stale_entry]"

definition formatted_designs :: jsval where
  "formatted_designs =
     JArr [JObj [(''_id'', JStr ''d1''), (''category'', JStr ''Kitchen''), (''id'', JStr ''d1'')],
           JObj [(''_id'', JStr ''d2''), (''category'', JStr ''Living Room''), (''id'', JStr ''d2'')]]"

definition three_keys :: serviceCache where
  "three_keys =
     [''design_1'' \<mapsto> \<lparr>data = JStr ''A'', timestamp = 1\<rparr>,
      ''design_2'' \<mapsto> \<lparr>data = JStr ''B'', timestamp = 2\<rparr>,
      ''designs_getAll'' \<mapsto> \<lparr>data = JStr ''C'', timestamp = 3\<rparr>]"

definition between_gt :: doc where
  "between_gt = [(''$between'', JArr [JNum 1, JNum 9]), (''$gt'', JNum 5)]"

definition favorite :: doc where
  "favorite = [(''userId'', JStr ''u1''), (''designId'', JObjectId ''d1'')]"

definition favorite_cached :: doc where
  "favorite_cached =
     [(''userId'', JStr ''u1''), (''designId'', JObjectId ''d1''), (''_id'', JStr ''id_0''),
      (''createdAt'', JStr ''2024-05-01T10:00:00.000Z''),
      (''updatedAt'', JStr ''2024-05-01T10:00:00.000Z'')]"

definition favorite_stored :: doc where
  "favorite_stored =
     [(''userId'', JStr ''u1''), (''designId'', JObj [(''id'', JStr ''d1'')]),
      (''_id'', JStr ''id_0''),
      (''createdAt'', JStr ''2024-05-01T10:00:00.000Z''),
      (''updatedAt'', JStr ''2024-05-01T10:00:00.000Z'')]"

definition after_refusal :: store where
  "after_refusal =
     \<lparr>collectionCache = [''designs'' \<mapsto> [hall_stamped]], localStorage = Map.empty\<rparr>"

definition unreadable_store :: store where
  "unreadable_store =
     \<lparr>collectionCache = Map.empty, localStorage = [''mock_designs'' \<mapsto> Unparseable]\<rparr>"

definition formatted_living :: jsval where
  "formatted_living =
     JObj [(''_id'', JStr ''d2''), (''category'', JStr ''Living Room''), (''id'', JStr ''d2'')]"

definition stale_design :: serviceCache where
  "stale_design = [''design_d2'' \<mapsto> stale_entry]"

definition ann :: doc where
  "ann = [(''_id'', JStr ''u1''), (''email'', JStr ''ann@example.com''),
          (''password'', JStr ''secret'')]"

definition members_store :: store where
  "members_store =
     \<lparr>collectionCache = Map.empty, localStorage = [''mock_users'' \<mapsto> Text [ann]]\<rparr>"

definition formatted_ann :: jsval where
  "formatted_ann =
     JObj [(''_id'', JStr ''u1''), (''email'', JStr ''ann@example.com''),
           (''password'', JUndefined)]"

definition stale_user :: serviceCache where
  "stale_user = [''user_u1'' \<mapsto> stale_entry]"

definition loft :: doc where
  "loft = [(''_id'', JStr ''p1''), (''title'', JStr ''Loft'')]"

definition projects_store :: store where
  "projects_store =
     \<lparr>collectionCache = Map.empty, localStorage = [''mock_projects'' \<mapsto> Text [loft]]\<rparr>"

definition formatted_loft :: jsval where
  "formatted_loft =
     JObj [(''_id'', JStr ''p1''), (''title'', JStr ''Loft''), (''id'', JStr ''p1'')]"

definition stale_project :: serviceCache where
  "stale_project = [''project_p1'' \<mapsto> stale_entry]"

section \<open>Properties\<close>

lemmas cmp_defs = deepCompare_def typeof_object_def get_def js_gt_def js_ge_def js_lt_def
  js_le_def js_less_def ToPrimitive_def

lemma sample_envs:
  "setItem_throws refusing_env" "\<not> setItem_throws sample_env"
  "RegExp_test refusing_env = no_RegExp" "RegExp_test sample_env = no_RegExp"
  by (simp_all add: refusing_env_def sample_env_def)

lemma load_designs: "load_items ''designs'' designs_store = Inr [kitchen, living]"
  by (simp add: load_items_def parse_stored_def designs_store_def storage_key_def)

lemma find_designs:
  "find_toArray ''designs'' [] srt designs_store = (Inr [kitchen, living], designs_cached)"
  by (simp add: find_toArray_def read_items_def parse_stored_def storage_key_def designs_store_def
      designs_cached_def)

subsection \<open>\<^verbatim>\<open>find\<close> and its filter\<close>

text \<open>
  Claim C1 says that \<^verbatim>\<open>find(collection, F)\<close> returns exactly the documents that match
  \<open>F\<close>, in insertion order. The code never reads the filter: for every filter the
  result is the result for the empty filter, the whole collection. On a collection of a
  kitchen and a living room design the filter \<^verbatim>\<open>{category: "Kitchen"}\<close> returns both,
  though the living room design does not match it and \<^verbatim>\<open>countDocuments\<close>, which
  applies the same filter, counts one.
\<close>

theorem find_ignores_its_filter:
  "find_toArray name query sortOptions st = find_toArray name [] [] st
   \<and> fst (find_toArray ''designs'' [(''category'', JStr ''Kitchen'')] [] designs_store)
       = Inr [kitchen, living]
   \<and> fields_match rx [(''category'', JStr ''Kitchen'')] living = Inr False
   \<and> fst (countDocuments sample_env ''designs'' [(''category'', JStr ''Kitchen'')] designs_store)
       = Inr 1"
  by (simp add: find_toArray_def read_items_def parse_stored_def storage_key_def designs_store_def
      fields_match_def keys_def field_matches_def get_def typeof_object_def living_def kitchen_def
      countDocuments_def)

subsection \<open>Several operators in one filter value\<close>

text \<open>
  Claim C2 says that a filter value with several operators matches iff all of them hold.
  In \<open>deepCompare\<close> the first operator present returns: with
  \<^verbatim>\<open>{$gte: 18, $lte: 65}\<close> only \<^verbatim>\<open>$gte\<close> is evaluated. The two examples of the claim
  (30 matches, 10 does not) come out as it says, but 100 matches too, although
  \<^verbatim>\<open>100 <= 65\<close> is false; so the document \<^verbatim>\<open>{age: 100}\<close> matches the filter
  \<^verbatim>\<open>{age: {$gte: 18, $lte: 65}}\<close>.
\<close>

theorem deepCompare_first_operator_decides:
  "deepCompare rx (JNum n) age_range = Inr (18 \<le> n)
   \<and> deepCompare rx (JNum 30) age_range = Inr True
   \<and> deepCompare rx (JNum 10) age_range = Inr False
   \<and> deepCompare rx (JNum 100) age_range = Inr True
   \<and> js_le (JNum 100) (member_of age_range ''$lte'') = Inr False
   \<and> fields_match rx [(''age'', age_range)] [(''age'', JNum 100)] = Inr True"
  by (auto simp add: cmp_defs age_range_def fields_match_def keys_def field_matches_def)

subsection \<open>Operator keys that \<open>deepCompare\<close> does not know\<close>

lemma js_less_kind: "js_less a b = Inl err \<Longrightarrow> err = NotModelled"
  by (auto simp add: js_less_def split: jsval.splits number.splits)

lemma deepCompare_kind:
  "deepCompare rx a q = Inl err \<Longrightarrow> err = SyntaxError \<or> err = NotModelled"
  by (auto simp add: deepCompare_def js_gt_def js_ge_def js_lt_def js_le_def regex_operator_def
      Let_def dest: js_less_kind split: if_splits sum.splits option.splits)

lemma get_recognized:
  "k \<in> set operator_keys \<Longrightarrow> get (filter (\<lambda>p. fst p \<in> set operator_keys) d) k = get d k"
  by (induction d) (auto simp add: get_def)

text \<open>
  Claim C3, as the code has it: a filter value with an operator key that \<open>deepCompare\<close>
  does not recognize is never rejected; the store has no validation error. When no
  recognized operator is present, \<open>deepCompare\<close> answers with a boolean, the equality of
  the two \<^verbatim>\<open>JSON.stringify\<close> texts, so the field matches only a value that
  serializes to the text of the filter value. When a recognized operator is present,
  the keys that are not recognized are not read: the answer is that of every filter
  value with the same recognized keys, in particular of the filter value without the
  other keys. The one exception \<open>deepCompare\<close> lets out is that of a recognized
  operator, the \<^verbatim>\<open>SyntaxError\<close> of the \<^verbatim>\<open>RegExp\<close> constructor
  (\<open>NotModelled\<close> stands for a boolean that the model does not compute).
\<close>

theorem deepCompare_never_rejects_a_key:
  "(\<not> operator_present d \<longrightarrow>
      deepCompare rx itemValue (JObj d)
        = Inr (JSON_stringify itemValue = JSON_stringify (JObj d)))
   \<and> (operator_present d \<and> (\<forall>k\<in>set operator_keys. get d' k = get d k) \<longrightarrow>
        deepCompare rx itemValue (JObj d') = deepCompare rx itemValue (JObj d))
   \<and> (operator_present d \<longrightarrow>
        deepCompare rx itemValue (JObj (filter (\<lambda>p. fst p \<in> set operator_keys) d))
          = deepCompare rx itemValue (JObj d))
   \<and> (deepCompare rx itemValue (JObj d) = Inl err \<longrightarrow>
        operator_present d \<and> (err = SyntaxError \<or> err = NotModelled))"
proof -
  have 1: "deepCompare rx itemValue (JObj d)
             = Inr (JSON_stringify itemValue = JSON_stringify (JObj d))"
    if "\<not> operator_present d"
    using that
    by (auto simp add: operator_present_def deepCompare_def typeof_object_def
        default_comparison_def)
  have 2: "deepCompare rx itemValue (JObj d2) = deepCompare rx itemValue (JObj d)"
    if present: "operator_present d" and same: "\<forall>k\<in>set operator_keys. get d2 k = get d k"
    for d2
  proof -
    have g: "get d2 ''$in'' = get d ''$in''" "get d2 ''$gt'' = get d ''$gt''"
      "get d2 ''$gte'' = get d ''$gte''" "get d2 ''$lt'' = get d ''$lt''"
      "get d2 ''$lte'' = get d ''$lte''" "get d2 ''$ne'' = get d ''$ne''"
      "get d2 ''$regex'' = get d ''$regex''" "get d2 ''$options'' = get d ''$options''"
      using same by (simp_all add: operator_keys_def)
    show ?thesis
      using present
      by (auto simp add: operator_present_def deepCompare_def typeof_object_def
          regex_operator_def g)
  qed
  have 3: "deepCompare rx itemValue (JObj (filter (\<lambda>p. fst p \<in> set operator_keys) d))
             = deepCompare rx itemValue (JObj d)"
    if "operator_present d"
    using that by (intro 2) (simp_all add: get_recognized)
  have 4: "operator_present d \<and> (err = SyntaxError \<or> err = NotModelled)"
    if "deepCompare rx itemValue (JObj d) = Inl err"
    using that 1 deepCompare_kind [OF that] by auto
  from 1 2 3 4 show ?thesis by blast
qed

text \<open>The theorem at the filter values \<^verbatim>\<open>{$between: [1, 9]}\<close>, where the field 5 is
  compared by its text, and \<^verbatim>\<open>{$between: [1, 9], $gt: 5}\<close>, where
  \<^verbatim>\<open>$gt\<close> decides as it does in \<^verbatim>\<open>{$gt: 5}\<close>: 7 matches and 3 does not.\<close>

theorem deepCompare_never_rejects_witness:
  "\<not> operator_present [(''$between'', JArr [JNum 1, JNum 9])]
   \<and> deepCompare no_RegExp (JNum 5) (JObj [(''$between'', JArr [JNum 1, JNum 9])])
       = Inr (JSON_stringify (JNum 5)
                = JSON_stringify (JObj [(''$between'', JArr [JNum 1, JNum 9])]))
   \<and> operator_present between_gt
   \<and> list_all (\<lambda>k. get [(''$gt'', JNum 5)] k = get between_gt k) operator_keys
   \<and> deepCompare no_RegExp (JNum 7) (JObj [(''$gt'', JNum 5)])
       = deepCompare no_RegExp (JNum 7) (JObj between_gt)
   \<and> deepCompare no_RegExp (JNum 7) (JObj between_gt) = Inr True
   \<and> deepCompare no_RegExp (JNum 3) (JObj between_gt) = Inr False"
proof -
  have a: "\<not> operator_present [(''$between'', JArr [JNum 1, JNum 9])]"
    by (simp add: operator_present_def get_def)
  have b: "operator_present between_gt"
    by (simp add: operator_present_def get_def between_gt_def)
  have c: "\<forall>k\<in>set operator_keys. get [(''$gt'', JNum 5)] k = get between_gt k"
    by (simp add: operator_keys_def get_def between_gt_def)
  have d: "deepCompare no_RegExp (JNum 7) (JObj [(''$gt'', JNum 5)]) = Inr True"
    "deepCompare no_RegExp (JNum 3) (JObj [(''$gt'', JNum 5)]) = Inr False"
    by (simp_all add: cmp_defs)
  note th1 = deepCompare_never_rejects_a_key
    [of "[(''$between'', JArr [JNum 1, JNum 9])]" no_RegExp "JNum 5", THEN conjunct1]
  note th7 = deepCompare_never_rejects_a_key
    [of between_gt no_RegExp "JNum 7" "[(''$gt'', JNum 5)]", THEN conjunct2, THEN conjunct1]
  note th3 = deepCompare_never_rejects_a_key
    [of between_gt no_RegExp "JNum 3" "[(''$gt'', JNum 5)]", THEN conjunct2, THEN conjunct1]
  have c': "list_all (\<lambda>k. get [(''$gt'', JNum 5)] k = get between_gt k) operator_keys"
    using c by (simp add: list_all_iff)
  show ?thesis
    using th1 th7 th3 a b c c' d by simp
qed

text \<open>Against the claim as stated: the unknown operator \<^verbatim>\<open>$between\<close> raises nothing;
  the answer is the plain "no match".\<close>

theorem unknown_operator_counterexample:
  "deepCompare no_RegExp (JNum 5) between_filter = Inr False
   \<and> fields_match no_RegExp [(''age'', between_filter)] [(''age'', JNum 5)] = Inr False"
  by (simp add: cmp_defs default_comparison_def fields_match_def keys_def field_matches_def
      show_int_def show_nat.simps between_filter_def)

subsection \<open>How a writer can end\<close>

lemma commit_shape:
  "commit e name items r st
     = (if setItem_throws e then (Inl QuotaExceededError, cached name items st)
        else (Inr r, committed name items st))"
  by (simp add: commit_def committed_def cached_def Let_def)

lemma storage_key_inject [simp]: "storage_key a = storage_key b \<longleftrightarrow> a = b"
  by (simp add: storage_key_def)

lemma js_less_error: "js_less a b = Inl err \<Longrightarrow> err \<noteq> QuotaExceededError"
  by (auto simp add: js_less_def split: jsval.splits number.splits)

lemma deepCompare_error: "deepCompare rx a b = Inl err \<Longrightarrow> err \<noteq> QuotaExceededError"
  by (auto simp add: deepCompare_def js_gt_def js_ge_def js_lt_def js_le_def regex_operator_def
      Let_def dest: js_less_error split: if_splits sum.splits option.splits)

lemma every_error: "every p xs = Inl err \<Longrightarrow> \<exists>x\<in>set xs. p x = Inl err"
  by (induction xs) (auto split: sum.splits if_splits)

lemma findIndex_error: "findIndex p xs = Inl err \<Longrightarrow> \<exists>x\<in>set xs. p x = Inl err"
  by (induction xs) (auto split: sum.splits if_splits option.splits)

lemma selects_error: "selects rx query item = Inl err \<Longrightarrow> err \<noteq> QuotaExceededError"
  by (auto simp add: selects_def fields_match_def field_matches_def
      dest!: every_error dest: deepCompare_error split: if_splits)

lemma load_items_error: "load_items name st = Inl err \<Longrightarrow> err \<noteq> QuotaExceededError"
  by (auto simp add: load_items_def parse_stored_def split: option.splits stored.splits)

lemma findIndex_selects_error:
  "findIndex (selects rx query) items = Inl err \<Longrightarrow> err \<noteq> QuotaExceededError"
  by (auto dest!: findIndex_error dest: selects_error)

lemma shape_wrote:
  "\<not> setItem_throws e \<Longrightarrow> shape e name st Wrote (committed name items st)"
  unfolding shape_def by auto

lemma shape_refused:
  "setItem_throws e \<Longrightarrow> shape e name st (Raised QuotaExceededError) (cached name items st)"
  unfolding shape_def by auto

lemma mutate_shape: "shape e name st (fst (mutate e name m st)) (snd (mutate e name m st))"
proof (cases m)
  case (InsertOne doc)
  show ?thesis
  proof (cases "load_items name st")
    case (Inl err)
    then show ?thesis
      using load_items_error [OF Inl] InsertOne by (simp add: insertOne_def Let_def shape_def)
  next
    case (Inr items)
    then show ?thesis
      using InsertOne
      by (simp add: insertOne_def Let_def commit_shape shape_wrote shape_refused)
  qed
next
  case (InsertMany docs)
  show ?thesis
  proof (cases "load_items name st")
    case (Inl err)
    then show ?thesis
      using load_items_error [OF Inl] InsertMany by (simp add: insertMany_def Let_def shape_def)
  next
    case (Inr items)
    then show ?thesis
      using InsertMany
      by (simp add: insertMany_def Let_def commit_shape shape_wrote shape_refused)
  qed
next
  case (UpdateOne query update)
  show ?thesis
  proof (cases "load_items name st")
    case (Inl err)
    then show ?thesis
      using load_items_error [OF Inl] UpdateOne by (simp add: updateOne_def shape_def)
  next
    case (Inr items)
    note items = this
    show ?thesis
    proof (cases "findIndex (selects (RegExp_test e) query) items")
      case (Inl err)
      then show ?thesis
        using findIndex_selects_error [OF Inl] UpdateOne items
        by (simp add: updateOne_def shape_def)
    next
      case (Inr found)
      show ?thesis
      proof (cases found)
        case None
        then show ?thesis using Inr UpdateOne items by (simp add: updateOne_def shape_def)
      next
        case (Some index)
        then show ?thesis
          using Inr UpdateOne items
          by (simp add: updateOne_def commit_shape shape_wrote shape_refused)
      qed
    qed
  qed
next
  case (DeleteOne query)
  show ?thesis
  proof (cases "load_items name st")
    case (Inl err)
    then show ?thesis
      using load_items_error [OF Inl] DeleteOne by (simp add: deleteOne_def shape_def)
  next
    case (Inr items)
    note items = this
    show ?thesis
    proof (cases "findIndex (selects (RegExp_test e) query) items")
      case (Inl err)
      then show ?thesis
        using findIndex_selects_error [OF Inl] DeleteOne items
        by (simp add: deleteOne_def shape_def)
    next
      case (Inr found)
      show ?thesis
      proof (cases found)
        case None
        then show ?thesis using Inr DeleteOne items by (simp add: deleteOne_def shape_def)
      next
        case (Some index)
        then show ?thesis
          using Inr DeleteOne items
          by (simp add: deleteOne_def commit_shape shape_wrote shape_refused)
      qed
    qed
  qed
qed

subsection \<open>Plain JSON values survive the round trip through the text\<close>

lemma concat_map_single: "concat (map (\<lambda>x. [f x]) xs) = map f xs"
  by (induction xs) auto

lemma reparse_plain: "json_plain v \<Longrightarrow> reparse v = v"
proof (induction v)
  case (JArr xs)
  then have "map (\<lambda>x. if x = JUndefined then JNull else reparse x) xs = map (\<lambda>x. x) xs"
    by (intro map_cong) (auto simp add: list_all_iff)
  then show ?case by simp
next
  case (JObj d)
  have "concat (map (\<lambda>p. if snd p = JUndefined then [] else [(fst p, reparse (snd p))]) d)
          = concat (map (\<lambda>p. [p]) d)"
  proof (intro arg_cong [where f = concat] map_cong refl)
    fix p assume p: "p \<in> set d"
    then have pl: "json_plain (snd p)" using JObj.prems by (simp add: list_all_iff)
    then have "snd p \<noteq> JUndefined" by auto
    moreover have "reparse (snd p) = snd p"
      using JObj.IH [of p "snd p"] p pl by (cases p) auto
    ultimately show "(if snd p = JUndefined then [] else [(fst p, reparse (snd p))]) = [p]"
      by simp
  qed
  then show ?case by (simp add: concat_map_single)
qed simp_all

lemma reparse_doc_plain: "plain_doc d \<Longrightarrow> reparse_doc d = d"
  using reparse_plain [of "JObj d"] by (simp add: plain_doc_def reparse_doc_def)

lemma map_reparse_doc_plain: "list_all plain_doc items \<Longrightarrow> map reparse_doc items = items"
  by (induction items) (auto simp add: reparse_doc_plain)

subsection \<open>The cache and the backing medium after a write\<close>

lemma stringify_None: "JSON_stringify v = None \<longleftrightarrow> v = JUndefined"
  by (cases v) simp_all

lemma stringify_entries:
  assumes "\<And>p. p \<in> set d \<Longrightarrow> JSON_stringify (reparse (snd p)) = JSON_stringify (snd p)"
  shows "concat (map (\<lambda>p. case JSON_stringify (snd p) of
                            None \<Rightarrow> []
                          | Some t \<Rightarrow> [json_quote (fst p) @ '':'' @ t])
           (concat (map (\<lambda>p. if snd p = JUndefined then [] else [(fst p, reparse (snd p))]) d)))
         = concat (map (\<lambda>p. case JSON_stringify (snd p) of
                            None \<Rightarrow> []
                          | Some t \<Rightarrow> [json_quote (fst p) @ '':'' @ t]) d)"
  using assms by (induction d) (auto split: option.splits)

lemma stringify_reparse: "JSON_stringify (reparse v) = JSON_stringify v"
proof (induction v)
  case (JArr xs)
  have "(case JSON_stringify (if x = JUndefined then JNull else reparse x) of
           None \<Rightarrow> ''null'' | Some t \<Rightarrow> t)
        = (case JSON_stringify x of None \<Rightarrow> ''null'' | Some t \<Rightarrow> t)"
    if "x \<in> set xs" for x
    using JArr.IH [OF that] by simp
  then show ?case by (simp add: o_def cong: map_cong)
next
  case (JObj d)
  have "JSON_stringify (reparse (snd p)) = JSON_stringify (snd p)" if "p \<in> set d" for p
    using JObj.IH [of p "snd p"] that by (cases p) auto
  then show ?case by (simp add: stringify_entries)
qed simp_all

lemma stringify_reparse_docs: "stringify_items (map reparse_doc items) = stringify_items items"
proof -
  have "map JObj (map reparse_doc items) = map (\<lambda>x. if x = JUndefined then JNull else reparse x) (map JObj items)"
    by (simp add: reparse_doc_def)
  then have "JArr (map JObj (map reparse_doc items)) = reparse (JArr (map JObj items))"
    by simp
  then show ?thesis
    unfolding stringify_items_def by (simp only: stringify_reparse)
qed

lemma parse_stored_cache [simp]:
  "parse_stored c (st\<lparr>collectionCache := x\<rparr>) = parse_stored c st"
  by (simp add: parse_stored_def)

lemma stamp_favorite: "stamp sample_env 0 favorite = favorite_cached"
  by (simp add: stamp_def Let_def get_def put_def favorite_def favorite_cached_def sample_env_def
      show_nat.simps)

text \<open>
  Claim C4, as the code has it. A writer that writes (\<^verbatim>\<open>insertOne\<close>,
  \<^verbatim>\<open>insertMany\<close>, an \<^verbatim>\<open>updateOne\<close> or \<^verbatim>\<open>deleteOne\<close> that selected a
  document) replaces both tiers in the same call: afterwards the cache entry of the
  collection is present, and the backing medium holds the text
  \<^verbatim>\<open>JSON.stringify\<close> makes of that very array. The array this text denotes is
  the cached array when the documents are plain JSON values. A writer that selected no
  document leaves the store as it was. No writer touches another collection.
  (A text in the medium is represented by the documents it denotes: \<open>Text (map
  reparse_doc items)\<close> is the text of \<open>items\<close>.)
\<close>

theorem write_replaces_both_tiers:
  assumes "mutate e name m st = (out, st')"
  shows "(out = Wrote \<longrightarrow>
            (\<exists>items. collectionCache st' name = Some items
               \<and> localStorage st' (storage_key name) = Some (Text (map reparse_doc items))
               \<and> stringify_items (map reparse_doc items) = stringify_items items
               \<and> (list_all plain_doc items \<longrightarrow> parse_stored name st' = Inr items)))
         \<and> (out = NoMatch \<longrightarrow> st' = st)
         \<and> (c \<noteq> name \<longrightarrow>
              collectionCache st' c = collectionCache st c
              \<and> localStorage st' (storage_key c) = localStorage st (storage_key c))"
proof -
  have sh: "shape e name st out st'"
    using mutate_shape [of e name st m] assms by simp
  have 1: "\<exists>items. collectionCache st' name = Some items
             \<and> localStorage st' (storage_key name) = Some (Text (map reparse_doc items))
             \<and> stringify_items (map reparse_doc items) = stringify_items items
             \<and> (list_all plain_doc items \<longrightarrow> parse_stored name st' = Inr items)"
    if "out = Wrote"
  proof -
    from sh that obtain items where st': "st' = committed name items st"
      by (auto simp add: shape_def)
    have "collectionCache st' name = Some items"
      and "localStorage st' (storage_key name) = Some (Text (map reparse_doc items))"
      and "list_all plain_doc items \<longrightarrow> parse_stored name st' = Inr items"
      by (simp_all add: st' committed_def parse_stored_def map_reparse_doc_plain)
    then show ?thesis
      using stringify_reparse_docs by blast
  qed
  have 2: "st' = st" if "out = NoMatch"
    using sh that by (auto simp add: shape_def)
  have 3: "collectionCache st' c = collectionCache st c
           \<and> localStorage st' (storage_key c) = localStorage st (storage_key c)"
    if "c \<noteq> name"
    using sh that by (auto simp add: shape_def committed_def cached_def)
  from 1 2 3 show ?thesis by blast
qed

text \<open>The theorem at \<^verbatim>\<open>deleteOne({category: "Kitchen"})\<close> on the two stored designs
  of a fresh page: the living room design is what the cache holds and what the medium
  holds.\<close>

theorem write_replaces_both_tiers_witness:
  "mutate sample_env ''designs'' (DeleteOne [(''category'', JStr ''Kitchen'')]) designs_store
     = (Wrote, committed ''designs'' [living] designs_store)
   \<and> collectionCache (committed ''designs'' [living] designs_store) ''designs'' = Some [living]
   \<and> localStorage (committed ''designs'' [living] designs_store) (storage_key ''designs'')
       = Some (Text (map reparse_doc [living]))
   \<and> stringify_items (map reparse_doc [living]) = stringify_items [living]
   \<and> list_all plain_doc [living]
   \<and> parse_stored ''designs'' (committed ''designs'' [living] designs_store) = Inr [living]
   \<and> collectionCache (committed ''designs'' [living] designs_store) ''users''
       = collectionCache designs_store ''users''"
proof -
  have s: "selects no_RegExp [(''category'', JStr ''Kitchen'')] kitchen = Inr True"
    by (simp add: selects_def get_def fields_match_def keys_def field_matches_def
        typeof_object_def kitchen_def)
  have m: "mutate sample_env ''designs'' (DeleteOne [(''category'', JStr ''Kitchen'')]) designs_store
             = (Wrote, committed ''designs'' [living] designs_store)"
    by (simp add: deleteOne_def load_designs s commit_shape sample_envs)
  have p: "list_all plain_doc [living]"
    by (simp add: plain_doc_def living_def)
  have k: "collectionCache (committed ''designs'' [living] designs_store) ''designs'' = Some [living]"
    by (simp add: committed_def)
  note th = write_replaces_both_tiers [OF m, of "''users''"]
  from th obtain items where
    i: "collectionCache (committed ''designs'' [living] designs_store) ''designs'' = Some items"
    and t: "localStorage (committed ''designs'' [living] designs_store) (storage_key ''designs'')
              = Some (Text (map reparse_doc items))"
    and j: "stringify_items (map reparse_doc items) = stringify_items items"
    and r: "list_all plain_doc items \<longrightarrow>
              parse_stored ''designs'' (committed ''designs'' [living] designs_store) = Inr items"
    by auto
  have items: "items = [living]"
    using i k by simp
  have f: "collectionCache (committed ''designs'' [living] designs_store) ''users''
             = collectionCache designs_store ''users''"
    using th by simp
  show ?thesis
    using m k t j r p f unfolding items by blast
qed

text \<open>Against the claim as stated. A favorite is inserted with the \<^verbatim>\<open>ObjectId\<close> of
  its design, as \<^verbatim>\<open>favoriteService.addFavorite\<close> does: the call completes, the cache
  holds the document with the \<^verbatim>\<open>ObjectId\<close>, and the array the medium holds has a
  plain object in its place. And after a write that the medium refused, an
  \<^verbatim>\<open>updateOne\<close> that selects nothing completes with a cache entry of one document
  over a medium that holds none.\<close>

theorem cache_differs_from_persisted_counterexample:
  "mutate sample_env ''favorites'' (InsertOne favorite) empty_store
     = (Wrote, committed ''favorites'' [favorite_cached] empty_store)
   \<and> collectionCache (committed ''favorites'' [favorite_cached] empty_store) ''favorites''
       = Some [favorite_cached]
   \<and> parse_stored ''favorites'' (committed ''favorites'' [favorite_cached] empty_store)
       = Inr [favorite_stored]
   \<and> favorite_cached \<noteq> favorite_stored
   \<and> insertOne refusing_env ''designs'' hall empty_store
       = (Inl QuotaExceededError, after_refusal)
   \<and> mutate sample_env ''designs'' (UpdateOne [(''category'', JStr ''Bedroom'')] set_style)
        after_refusal
       = (NoMatch, after_refusal)
   \<and> collectionCache after_refusal ''designs'' = Some [hall_stamped]
   \<and> parse_stored ''designs'' after_refusal = Inr []"
proof -
  have l: "load_items ''favorites'' empty_store = Inr []"
    "load_items ''designs'' empty_store = Inr []"
    "load_items ''designs'' after_refusal = Inr [hall_stamped]"
    by (simp_all add: load_items_def parse_stored_def empty_store_def after_refusal_def)
  have 1: "mutate sample_env ''favorites'' (InsertOne favorite) empty_store
             = (Wrote, committed ''favorites'' [favorite_cached] empty_store)"
    by (simp add: insertOne_def Let_def l stamp_favorite commit_shape sample_envs)
  have 2: "collectionCache (committed ''favorites'' [favorite_cached] empty_store) ''favorites''
             = Some [favorite_cached]"
    by (simp add: committed_def)
  have 3: "parse_stored ''favorites'' (committed ''favorites'' [favorite_cached] empty_store)
             = Inr [favorite_stored]"
    by (simp add: committed_def parse_stored_def reparse_doc_def favorite_cached_def
        favorite_stored_def)
  have 4: "favorite_cached \<noteq> favorite_stored"
    by (simp add: favorite_cached_def favorite_stored_def)
  have h: "stamp refusing_env 0 hall = hall_stamped"
    by (simp add: stamp_def Let_def get_def put_def hall_def hall_stamped_def refusing_env_def
        sample_env_def show_nat.simps)
  have 5: "insertOne refusing_env ''designs'' hall empty_store
             = (Inl QuotaExceededError, after_refusal)"
  proof -
    have "cached ''designs'' [hall_stamped] empty_store = after_refusal"
      by (simp add: cached_def empty_store_def after_refusal_def)
    then show ?thesis
      by (simp add: insertOne_def Let_def l h commit_shape sample_envs)
  qed
  have s: "selects no_RegExp [(''category'', JStr ''Bedroom'')] hall_stamped = Inr False"
    by (simp add: selects_def get_def fields_match_def keys_def field_matches_def
        typeof_object_def hall_stamped_def)
  have 6: "mutate sample_env ''designs'' (UpdateOne [(''category'', JStr ''Bedroom'')] set_style)
             after_refusal = (NoMatch, after_refusal)"
    by (simp add: updateOne_def l s sample_envs)
  have 7: "collectionCache after_refusal ''designs'' = Some [hall_stamped]"
    "parse_stored ''designs'' after_refusal = Inr []"
    by (simp_all add: after_refusal_def parse_stored_def)
  from 1 2 3 4 5 6 7 show ?thesis by simp
qed

subsection \<open>The expiry of a cached result\<close>

lemma format_samples:
  "JArr [JObj (format_design kitchen), JObj (format_design living)] = formatted_designs"
  by (simp add: format_design_def kitchen_def living_def get_def put_def formatted_designs_def)

lemma format_living: "JObj (format_design living) = formatted_living"
  by (simp add: format_design_def living_def get_def put_def formatted_living_def)

lemma stale_simps:
  "stale_cache ''designs_getAll'' = Some stale_entry"
  "stale_design ''design_d2'' = Some stale_entry"
  "stale_project ''project_p1'' = Some stale_entry"
  "stale_user ''user_u1'' = Some stale_entry"
  "timestamp stale_entry = 1000" "data stale_entry = JArr []"
  "data stale_entry \<noteq> formatted_designs" "truthy formatted_designs"
  "JArr [] \<noteq> formatted_designs"
  by (simp_all add: stale_cache_def stale_design_def stale_project_def stale_user_def
      stale_entry_def formatted_designs_def)

lemma cached_call_hit:
  "cache k = Some c \<Longrightarrow> now - timestamp c < CACHE_EXPIRATION \<Longrightarrow>
   cached_call now later k compute (cache, st) = (Inr (data c), cache, st)"
  by (simp add: cached_call_def cache_hit_def)

lemma cached_call_miss:
  "cache_hit now cache k = None \<Longrightarrow>
   cached_call now later k compute (cache, st)
     = (case compute st of
          (Inl err, st') \<Rightarrow> (Inl err, cache, st')
        | (Inr None, st') \<Rightarrow> (Inr JNull, cache, st')
        | (Inr (Some fresh), st') \<Rightarrow>
            (Inr fresh, cache(k \<mapsto> \<lparr>data = fresh, timestamp = later\<rparr>), st'))"
  by (simp add: cached_call_def)

lemma expired_miss:
  "cache k = Some c \<Longrightarrow> \<not> now - timestamp c < 300000 \<Longrightarrow>
   cache_hit now cache k = None \<and> cache_hit now (cache(k := None)) k = None"
  by (simp add: cache_hit_def CACHE_EXPIRATION_def)

lemma fetch_all_array: "fetch_all name st = (Inr (Some v), st') \<Longrightarrow> truthy v"
  by (auto simp add: fetch_all_def split: prod.splits sum.splits)

lemma absent_getAll:
  assumes "cache_hit now cache k = None" and "cache_hit now (cache(k := None)) k = None"
    and "\<And>s. service s =
           (case cached_call now later k (fetch_all name) s of
              (Inl err, s') \<Rightarrow> (JArr [], s')
            | (Inr result, s') \<Rightarrow> (if keep \<or> truthy result then result else JArr [], s'))"
  shows "treats_as_absent service k later cache st"
proof (cases "fetch_all name st")
  case (Pair r st')
  show ?thesis
  proof (cases r)
    case (Inl err)
    then show ?thesis
      using Pair assms by (simp add: treats_as_absent_def cached_call_miss)
  next
    case (Inr found)
    show ?thesis
    proof (cases found)
      case None
      then show ?thesis
        using Pair Inr assms by (simp add: treats_as_absent_def cached_call_miss)
    next
      case (Some v)
      then have "truthy v"
        using Pair Inr fetch_all_array by simp
      then show ?thesis
        using Pair Inr Some assms by (simp add: treats_as_absent_def cached_call_miss)
    qed
  qed
qed

lemma absent_getById:
  assumes "cache_hit now cache k = None" and "cache_hit now (cache(k := None)) k = None"
    and "\<And>s. service s =
           (case cached_call now later k compute s of
              (Inl err, s') \<Rightarrow> (JNull, s')
            | (Inr result, s') \<Rightarrow> (result, s'))"
  shows "treats_as_absent service k later cache st"
proof (cases "compute st")
  case (Pair r st')
  show ?thesis
  proof (cases r)
    case (Inl err)
    then show ?thesis
      using Pair assms by (simp add: treats_as_absent_def cached_call_miss)
  next
    case (Inr found)
    then show ?thesis
      using Pair assms by (cases found) (simp_all add: treats_as_absent_def cached_call_miss)
  qed
qed

text \<open>
  Claim C5, as the code has it: no entry carries a time to live of its own. Every lookup
  of the five cached services (\<^verbatim>\<open>designService.getAll\<close> and \<^verbatim>\<open>getById\<close>,
  \<^verbatim>\<open>projectService.getAll\<close> and \<^verbatim>\<open>getById\<close>, \<^verbatim>\<open>userService.getById\<close>)
  compares the age of its entry with the one constant \<open>CACHE_EXPIRATION\<close>, five
  minutes. An entry stored at \<open>t0\<close> is served, unchanged and without touching the
  store, at every lookup with \<open>now - t0 < 300000\<close>. At any other lookup it is not
  served: the service treats it as absent and goes to the store. When the store
  answers, the entry is replaced by the fresh result with the new timestamp; when the
  read raises, or a lookup by identifier finds no document, the old entry stays in the
  cache and \<^verbatim>\<open>[]\<close> or \<^verbatim>\<open>null\<close> is returned.
\<close>

theorem result_cache_one_fixed_expiry:
  "CACHE_EXPIRATION = 300000
   \<and> (cache ''designs_getAll'' = Some c \<longrightarrow>
        (now - timestamp c < 300000 \<longrightarrow>
           designService_getAll now later (cache, st)
             = (if truthy (data c) then data c else JArr [], cache, st))
      \<and> (\<not> now - timestamp c < 300000 \<longrightarrow>
           treats_as_absent (designService_getAll now later) ''designs_getAll'' later
             cache st
         \<and> (find_toArray ''designs'' [] [(''createdAt'', JNum (- 1))] st = (Inr items, st') \<longrightarrow>
              designService_getAll now later (cache, st)
                = (JArr (map (\<lambda>d. JObj (format_design d)) items),
                   cache(''designs_getAll'' \<mapsto>
                     \<lparr>data = JArr (map (\<lambda>d. JObj (format_design d)) items),
                      timestamp = later\<rparr>),
                   st'))
         \<and> (find_toArray ''designs'' [] [(''createdAt'', JNum (- 1))] st = (Inl err, st') \<longrightarrow>
              designService_getAll now later (cache, st)
                = (JArr [], cache,
                   st'))))
   \<and> (cache (''design_'' @ id') = Some c \<longrightarrow>
        (now - timestamp c < 300000 \<longrightarrow>
           designService_getById e now later id' (cache, st)
             = (data c, cache, st))
      \<and> (\<not> now - timestamp c < 300000 \<longrightarrow>
           treats_as_absent (designService_getById e now later id') (''design_'' @ id') later
             cache st
         \<and> (findOne e ''designs'' [(''_id'', toObjectId e id')] st = (Inr (Some item), st') \<longrightarrow>
              designService_getById e now later id' (cache, st)
                = (JObj (format_design item),
                   cache(''design_'' @ id' \<mapsto>
                     \<lparr>data = JObj (format_design item),
                      timestamp = later\<rparr>),
                   st'))
         \<and> (findOne e ''designs'' [(''_id'', toObjectId e id')] st = (Inr None, st') \<longrightarrow>
              designService_getById e now later id' (cache, st)
                = (JNull, cache,
                   st'))
         \<and> (findOne e ''designs'' [(''_id'', toObjectId e id')] st = (Inl err, st') \<longrightarrow>
              designService_getById e now later id' (cache, st)
                = (JNull, cache,
                   st'))))
   \<and> (cache ''projects_getAll'' = Some c \<longrightarrow>
        (now - timestamp c < 300000 \<longrightarrow>
           projectService_getAll now later (cache, st)
             = (data c, cache, st))
      \<and> (\<not> now - timestamp c < 300000 \<longrightarrow>
           treats_as_absent (projectService_getAll now later) ''projects_getAll'' later
             cache st
         \<and> (find_toArray ''projects'' [] [(''createdAt'', JNum (- 1))] st = (Inr items, st') \<longrightarrow>
              projectService_getAll now later (cache, st)
                = (JArr (map (\<lambda>d. JObj (format_design d)) items),
                   cache(''projects_getAll'' \<mapsto>
                     \<lparr>data = JArr (map (\<lambda>d. JObj (format_design d)) items),
                      timestamp = later\<rparr>),
                   st'))
         \<and> (find_toArray ''projects'' [] [(''createdAt'', JNum (- 1))] st = (Inl err, st') \<longrightarrow>
              projectService_getAll now later (cache, st)
                = (JArr [], cache,
                   st'))))
   \<and> (cache (''project_'' @ id') = Some c \<longrightarrow>
        (now - timestamp c < 300000 \<longrightarrow>
           projectService_getById e now later id' (cache, st)
             = (data c, cache, st))
      \<and> (\<not> now - timestamp c < 300000 \<longrightarrow>
           treats_as_absent (projectService_getById e now later id') (''project_'' @ id') later
             cache st
         \<and> (findOne e ''projects'' [(''_id'', toObjectId e id')] st = (Inr (Some item), st')
                \<and> format_project item = Inr formatted \<longrightarrow>
              projectService_getById e now later id' (cache, st)
                = (JObj formatted,
                   cache(''project_'' @ id' \<mapsto>
                     \<lparr>data = JObj formatted,
                      timestamp = later\<rparr>),
                   st'))
         \<and> (findOne e ''projects'' [(''_id'', toObjectId e id')] st = (Inr (Some item), st')
                \<and> format_project item = Inl err \<longrightarrow>
              projectService_getById e now later id' (cache, st)
                = (JNull, cache,
                   st'))
         \<and> (findOne e ''projects'' [(''_id'', toObjectId e id')] st = (Inr None, st') \<longrightarrow>
              projectService_getById e now later id' (cache, st)
                = (JNull, cache,
                   st'))
         \<and> (findOne e ''projects'' [(''_id'', toObjectId e id')] st = (Inl err, st') \<longrightarrow>
              projectService_getById e now later id' (cache, st)
                = (JNull, cache,
                   st'))))
   \<and> (cache (''user_'' @ id') = Some c \<longrightarrow>
        (now - timestamp c < 300000 \<longrightarrow>
           userService_getById e now later id' (cache, st)
             = (data c, cache, st))
      \<and> (\<not> now - timestamp c < 300000 \<longrightarrow>
           treats_as_absent (userService_getById e now later id') (''user_'' @ id') later
             cache st
         \<and> (findOne e ''users'' [(''_id'', toObjectId e id')] st = (Inr (Some item), st') \<longrightarrow>
              userService_getById e now later id' (cache, st)
                = (JObj (format_user item),
                   cache(''user_'' @ id' \<mapsto>
                     \<lparr>data = JObj (format_user item),
                      timestamp = later\<rparr>),
                   st'))
         \<and> (findOne e ''users'' [(''_id'', toObjectId e id')] st = (Inr None, st') \<longrightarrow>
              userService_getById e now later id' (cache, st)
                = (JNull, cache,
                   st'))
         \<and> (findOne e ''users'' [(''_id'', toObjectId e id')] st = (Inl err, st') \<longrightarrow>
              userService_getById e now later id' (cache, st)
                = (JNull, cache,
                   st'))))"
proof -
  have 0: "CACHE_EXPIRATION = 300000"
    by (simp add: CACHE_EXPIRATION_def)
  have hit: "cached_call now later k compute (cache, st) = (Inr (data c), cache, st)"
    if "cache k = Some c" "now - timestamp c < 300000" for k compute
    using that by (simp add: cached_call_hit 0)
  have expired:
    "cache_hit now cache k = None \<and> cache_hit now (cache(k := None)) k = None"
    if "cache k = Some c" "\<not> now - timestamp c < 300000" for k
    using that by (rule expired_miss)
  have designService_getAll_hit: "designService_getAll now later (cache, st)
             = (if truthy (data c) then data c else JArr [], cache, st)"
    if "cache ''designs_getAll'' = Some c" "now - timestamp c < 300000"
    using hit [OF that] by (simp add: designService_getAll_def)
  have designService_getAll_absent: "treats_as_absent (designService_getAll now later) ''designs_getAll'' later
             cache st"
    if "cache ''designs_getAll'' = Some c" "\<not> now - timestamp c < 300000"
    using expired [OF that]
    by (intro absent_getAll [where now = now and name = "''designs''" and keep = False])
      (simp_all add: designService_getAll_def split: prod.splits sum.splits)
  have designService_getAll_0: "designService_getAll now later (cache, st)
             = (JArr (map (\<lambda>d. JObj (format_design d)) items), cache(''designs_getAll'' \<mapsto>
                     \<lparr>data = JArr (map (\<lambda>d. JObj (format_design d)) items),
                      timestamp = later\<rparr>),
                st')"
    if "cache ''designs_getAll'' = Some c" "\<not> now - timestamp c < 300000"
      "find_toArray ''designs'' [] [(''createdAt'', JNum (- 1))] st = (Inr items, st')"
    using expired [OF that(1,2)] that(3)
    by (simp add: designService_getAll_def fetch_all_def cached_call_miss)
  have designService_getAll_1: "designService_getAll now later (cache, st)
             = (JArr [], cache,
                st')"
    if "cache ''designs_getAll'' = Some c" "\<not> now - timestamp c < 300000"
      "find_toArray ''designs'' [] [(''createdAt'', JNum (- 1))] st = (Inl err, st')"
    using expired [OF that(1,2)] that(3)
    by (simp add: designService_getAll_def fetch_all_def cached_call_miss)
  have designService_getById_hit: "designService_getById e now later id' (cache, st)
             = (data c, cache, st)"
    if "cache (''design_'' @ id') = Some c" "now - timestamp c < 300000"
    using hit [OF that] by (simp add: designService_getById_def)
  have designService_getById_absent: "treats_as_absent (designService_getById e now later id') (''design_'' @ id') later
             cache st"
    if "cache (''design_'' @ id') = Some c" "\<not> now - timestamp c < 300000"
    using expired [OF that]
    by (intro absent_getById
        [where now = now
           and compute = "fetch_by_id e ''designs'' id' (\<lambda>d. Inr (format_design d))"])
      (simp_all add: designService_getById_def)
  have designService_getById_0: "designService_getById e now later id' (cache, st)
             = (JObj (format_design item), cache(''design_'' @ id' \<mapsto>
                     \<lparr>data = JObj (format_design item),
                      timestamp = later\<rparr>),
                st')"
    if "cache (''design_'' @ id') = Some c" "\<not> now - timestamp c < 300000"
      "findOne e ''designs'' [(''_id'', toObjectId e id')] st = (Inr (Some item), st')"
    using expired [OF that(1,2)] that(3)
    by (simp add: designService_getById_def fetch_by_id_def cached_call_miss)
  have designService_getById_1: "designService_getById e now later id' (cache, st)
             = (JNull, cache,
                st')"
    if "cache (''design_'' @ id') = Some c" "\<not> now - timestamp c < 300000"
      "findOne e ''designs'' [(''_id'', toObjectId e id')] st = (Inr None, st')"
    using expired [OF that(1,2)] that(3)
    by (simp add: designService_getById_def fetch_by_id_def cached_call_miss)
  have designService_getById_2: "designService_getById e now later id' (cache, st)
             = (JNull, cache,
                st')"
    if "cache (''design_'' @ id') = Some c" "\<not> now - timestamp c < 300000"
      "findOne e ''designs'' [(''_id'', toObjectId e id')] st = (Inl err, st')"
    using expired [OF that(1,2)] that(3)
    by (simp add: designService_getById_def fetch_by_id_def cached_call_miss)
  have projectService_getAll_hit: "projectService_getAll now later (cache, st)
             = (data c, cache, st)"
    if "cache ''projects_getAll'' = Some c" "now - timestamp c < 300000"
    using hit [OF that] by (simp add: projectService_getAll_def)
  have projectService_getAll_absent: "treats_as_absent (projectService_getAll now later) ''projects_getAll'' later
             cache st"
    if "cache ''projects_getAll'' = Some c" "\<not> now - timestamp c < 300000"
    using expired [OF that]
    by (intro absent_getAll [where now = now and name = "''projects''" and keep = True])
      (simp_all add: projectService_getAll_def split: prod.splits sum.splits)
  have projectService_getAll_0: "projectService_getAll now later (cache, st)
             = (JArr (map (\<lambda>d. JObj (format_design d)) items), cache(''projects_getAll'' \<mapsto>
                     \<lparr>data = JArr (map (\<lambda>d. JObj (format_design d)) items),
                      timestamp = later\<rparr>),
                st')"
    if "cache ''projects_getAll'' = Some c" "\<not> now - timestamp c < 300000"
      "find_toArray ''projects'' [] [(''createdAt'', JNum (- 1))] st = (Inr items, st')"
    using expired [OF that(1,2)] that(3)
    by (simp add: projectService_getAll_def fetch_all_def cached_call_miss)
  have projectService_getAll_1: "projectService_getAll now later (cache, st)
             = (JArr [], cache,
                st')"
    if "cache ''projects_getAll'' = Some c" "\<not> now - timestamp c < 300000"
      "find_toArray ''projects'' [] [(''createdAt'', JNum (- 1))] st = (Inl err, st')"
    using expired [OF that(1,2)] that(3)
    by (simp add: projectService_getAll_def fetch_all_def cached_call_miss)
  have projectService_getById_hit: "projectService_getById e now later id' (cache, st)
             = (data c, cache, st)"
    if "cache (''project_'' @ id') = Some c" "now - timestamp c < 300000"
    using hit [OF that] by (simp add: projectService_getById_def)
  have projectService_getById_absent: "treats_as_absent (projectService_getById e now later id') (''project_'' @ id') later
             cache st"
    if "cache (''project_'' @ id') = Some c" "\<not> now - timestamp c < 300000"
    using expired [OF that]
    by (intro absent_getById
        [where now = now and compute = "fetch_by_id e ''projects'' id' format_project"])
      (simp_all add: projectService_getById_def)
  have projectService_getById_0: "projectService_getById e now later id' (cache, st)
             = (JObj formatted, cache(''project_'' @ id' \<mapsto>
                     \<lparr>data = JObj formatted,
                      timestamp = later\<rparr>),
                st')"
    if "cache (''project_'' @ id') = Some c" "\<not> now - timestamp c < 300000"
      "findOne e ''projects'' [(''_id'', toObjectId e id')] st = (Inr (Some item), st')
                \<and> format_project item = Inr formatted"
    using expired [OF that(1,2)] that(3)
    by (simp add: projectService_getById_def fetch_by_id_def cached_call_miss)
  have projectService_getById_1: "projectService_getById e now later id' (cache, st)
             = (JNull, cache,
                st')"
    if "cache (''project_'' @ id') = Some c" "\<not> now - timestamp c < 300000"
      "findOne e ''projects'' [(''_id'', toObjectId e id')] st = (Inr (Some item), st')
                \<and> format_project item = Inl err"
    using expired [OF that(1,2)] that(3)
    by (simp add: projectService_getById_def fetch_by_id_def cached_call_miss)
  have projectService_getById_2: "projectService_getById e now later id' (cache, st)
             = (JNull, cache,
                st')"
    if "cache (''project_'' @ id') = Some c" "\<not> now - timestamp c < 300000"
      "findOne e ''projects'' [(''_id'', toObjectId e id')] st = (Inr None, st')"
    using expired [OF that(1,2)] that(3)
    by (simp add: projectService_getById_def fetch_by_id_def cached_call_miss)
  have projectService_getById_3: "projectService_getById e now later id' (cache, st)
             = (JNull, cache,
                st')"
    if "cache (''project_'' @ id') = Some c" "\<not> now - timestamp c < 300000"
      "findOne e ''projects'' [(''_id'', toObjectId e id')] st = (Inl err, st')"
    using expired [OF that(1,2)] that(3)
    by (simp add: projectService_getById_def fetch_by_id_def cached_call_miss)
  have userService_getById_hit: "userService_getById e now later id' (cache, st)
             = (data c, cache, st)"
    if "cache (''user_'' @ id') = Some c" "now - timestamp c < 300000"
    using hit [OF that] by (simp add: userService_getById_def)
  have userService_getById_absent: "treats_as_absent (userService_getById e now later id') (''user_'' @ id') later
             cache st"
    if "cache (''user_'' @ id') = Some c" "\<not> now - timestamp c < 300000"
    using expired [OF that]
    by (intro absent_getById
        [where now = now
           and compute = "fetch_by_id e ''users'' id' (\<lambda>u. Inr (format_user u))"])
      (simp_all add: userService_getById_def)
  have userService_getById_0: "userService_getById e now later id' (cache, st)
             = (JObj (format_user item), cache(''user_'' @ id' \<mapsto>
                     \<lparr>data = JObj (format_user item),
                      timestamp = later\<rparr>),
                st')"
    if "cache (''user_'' @ id') = Some c" "\<not> now - timestamp c < 300000"
      "findOne e ''users'' [(''_id'', toObjectId e id')] st = (Inr (Some item), st')"
    using expired [OF that(1,2)] that(3)
    by (simp add: userService_getById_def fetch_by_id_def cached_call_miss)
  have userService_getById_1: "userService_getById e now later id' (cache, st)
             = (JNull, cache,
                st')"
    if "cache (''user_'' @ id') = Some c" "\<not> now - timestamp c < 300000"
      "findOne e ''users'' [(''_id'', toObjectId e id')] st = (Inr None, st')"
    using expired [OF that(1,2)] that(3)
    by (simp add: userService_getById_def fetch_by_id_def cached_call_miss)
  have userService_getById_2: "userService_getById e now later id' (cache, st)
             = (JNull, cache,
                st')"
    if "cache (''user_'' @ id') = Some c" "\<not> now - timestamp c < 300000"
      "findOne e ''users'' [(''_id'', toObjectId e id')] st = (Inl err, st')"
    using expired [OF that(1,2)] that(3)
    by (simp add: userService_getById_def fetch_by_id_def cached_call_miss)
  note outcomes =
    designService_getAll_hit designService_getAll_absent designService_getAll_0
    designService_getAll_1 designService_getById_hit designService_getById_absent
    designService_getById_0 designService_getById_1 designService_getById_2
    projectService_getAll_hit projectService_getAll_absent projectService_getAll_0
    projectService_getAll_1 projectService_getById_hit projectService_getById_absent
    projectService_getById_0 projectService_getById_1 projectService_getById_2
    projectService_getById_3 userService_getById_hit userService_getById_absent
    userService_getById_0 userService_getById_1 userService_getById_2
  show ?thesis
  proof (intro conjI impI)
    show "CACHE_EXPIRATION = 300000" by (rule 0)
  qed (rule outcomes; assumption)+
qed

text \<open>The theorem on entries stored at \<open>t0 = 1000\<close>: the list of designs is served
  4999 ms and 299999 ms later and recomputed 300000 ms later, when the stale entry stays
  if the stored text cannot be read; the design \<^verbatim>\<open>d2\<close> likewise; a stale project
  and a stale user are fetched again.\<close>

theorem result_cache_one_fixed_expiry_witness:
  "stale_cache ''designs_getAll'' = Some stale_entry
   \<and> designService_getAll (1000 + 4999) (1000 + 5000) (stale_cache, designs_store)
       = (JArr [], stale_cache, designs_store)
   \<and> designService_getAll (1000 + 299999) (1000 + 300000) (stale_cache, designs_store)
       = (JArr [], stale_cache, designs_store)
   \<and> designService_getAll (1000 + 300000) (1000 + 300001) (stale_cache, designs_store)
       = (formatted_designs,
          stale_cache(''designs_getAll'' \<mapsto> \<lparr>data = formatted_designs, timestamp = 301001\<rparr>),
          designs_cached)
   \<and> designService_getAll (1000 + 300000) (1000 + 300001) (stale_cache, unreadable_store)
       = (JArr [], stale_cache, unreadable_store)
   \<and> stale_design ''design_d2'' = Some stale_entry
   \<and> designService_getById sample_env (1000 + 4999) (1000 + 5000) ''d2''
        (stale_design, designs_store)
       = (JArr [], stale_design, designs_store)
   \<and> designService_getById sample_env (1000 + 300000) (1000 + 300001) ''d2''
        (stale_design, designs_store)
       = (formatted_living,
          stale_design(''design_d2'' \<mapsto> \<lparr>data = formatted_living, timestamp = 301001\<rparr>),
          designs_cached)
   \<and> fst (projectService_getById sample_env (1000 + 300000) (1000 + 300001) ''p1''
             (stale_project, projects_store))
       = formatted_loft
   \<and> fst (userService_getById sample_env (1000 + 300000) (1000 + 300001) ''u1''
             (stale_user, members_store))
       = formatted_ann"
proof -
  have u: "find_toArray ''designs'' [] [(''createdAt'', JNum (- 1))] unreadable_store
             = (Inl SyntaxError, unreadable_store)"
    by (simp add: find_toArray_def read_items_def parse_stored_def storage_key_def
        unreadable_store_def)
  have s: "selects no_RegExp [(''_id'', JObjectId ''d2'')] kitchen = Inr False"
    "selects no_RegExp [(''_id'', JObjectId ''d2'')] living = Inr True"
    by (simp_all add: selects_def get_def id_string_def kitchen_def living_def)
  have o: "findOne sample_env ''designs'' [(''_id'', toObjectId sample_env ''d2'')] designs_store
             = (Inr (Some living), designs_cached)"
    by (simp add: findOne_def find_designs [unfolded find_toArray_def] sample_envs s
        toObjectId_def)
  have 1: "designService_getAll (1000 + 4999) (1000 + 5000) (stale_cache, designs_store)
             = (JArr [], stale_cache, designs_store)"
    using result_cache_one_fixed_expiry
      [where cache = stale_cache and c = stale_entry and st = designs_store
         and items = "[kitchen, living]" and st' = designs_cached
         and now = "1000 + 4999" and later = "1000 + 5000",
       THEN conjunct2, THEN conjunct1]
    by (simp add: stale_simps)
  have 2: "designService_getAll (1000 + 299999) (1000 + 300000) (stale_cache, designs_store)
             = (JArr [], stale_cache, designs_store)"
    using result_cache_one_fixed_expiry
      [where cache = stale_cache and c = stale_entry and st = designs_store
         and items = "[kitchen, living]" and st' = designs_cached
         and now = "1000 + 299999" and later = "1000 + 300000",
       THEN conjunct2, THEN conjunct1]
    by (simp add: stale_simps)
  have 3: "designService_getAll (1000 + 300000) (1000 + 300001) (stale_cache, designs_store)
             = (formatted_designs,
                stale_cache(''designs_getAll'' \<mapsto>
                  \<lparr>data = formatted_designs, timestamp = 301001\<rparr>),
                designs_cached)"
    using result_cache_one_fixed_expiry
      [where cache = stale_cache and c = stale_entry and st = designs_store
         and items = "[kitchen, living]" and st' = designs_cached
         and now = "1000 + 300000" and later = "1000 + 300001",
       THEN conjunct2, THEN conjunct1]
    by (simp add: stale_simps find_designs format_samples)
  have 4: "designService_getAll (1000 + 300000) (1000 + 300001) (stale_cache, unreadable_store)
             = (JArr [], stale_cache, unreadable_store)"
    using result_cache_one_fixed_expiry
      [where cache = stale_cache and c = stale_entry and st = unreadable_store
         and err = SyntaxError and st' = unreadable_store and now = "1000 + 300000"
         and later = "1000 + 300001",
       THEN conjunct2, THEN conjunct1]
    by (simp add: stale_simps u)
  have 5: "designService_getById sample_env (1000 + 4999) (1000 + 5000) ''d2''
             (stale_design, designs_store) = (JArr [], stale_design, designs_store)"
    using result_cache_one_fixed_expiry
      [where cache = stale_design and c = stale_entry and st = designs_store and id' = "''d2''"
         and e = sample_env and item = living and st' = designs_cached
         and now = "1000 + 4999" and later = "1000 + 5000",
       THEN conjunct2, THEN conjunct2, THEN conjunct1]
    by (simp add: stale_simps)
  have 6: "designService_getById sample_env (1000 + 300000) (1000 + 300001) ''d2''
             (stale_design, designs_store)
           = (formatted_living,
              stale_design(''design_d2'' \<mapsto> \<lparr>data = formatted_living, timestamp = 301001\<rparr>),
              designs_cached)"
    using result_cache_one_fixed_expiry
      [where cache = stale_design and c = stale_entry and st = designs_store and id' = "''d2''"
         and e = sample_env and item = living and st' = designs_cached
         and now = "1000 + 300000" and later = "1000 + 300001",
       THEN conjunct2, THEN conjunct2, THEN conjunct1]
    by (simp add: stale_simps o format_living)
  have p: "findOne sample_env ''projects'' [(''_id'', toObjectId sample_env ''p1'')] projects_store
             = (Inr (Some loft),
                projects_store\<lparr>collectionCache := [''projects'' \<mapsto> [loft]]\<rparr>)"
    "format_project loft = Inr [(''_id'', JStr ''p1''), (''title'', JStr ''Loft''), (''id'', JStr ''p1'')]"
    by (simp_all add: findOne_def read_items_def parse_stored_def storage_key_def
        projects_store_def sample_envs selects_def get_def id_string_def toObjectId_def loft_def
        format_project_def put_def)
  have 7: "fst (projectService_getById sample_env (1000 + 300000) (1000 + 300001) ''p1''
                  (stale_project, projects_store))
             = formatted_loft"
    using result_cache_one_fixed_expiry
      [where cache = stale_project and c = stale_entry and st = projects_store
         and id' = "''p1''" and e = sample_env and item = loft
         and formatted = "[(''_id'', JStr ''p1''), (''title'', JStr ''Loft''), (''id'', JStr ''p1'')]"
         and st' = "projects_store\<lparr>collectionCache := [''projects'' \<mapsto> [loft]]\<rparr>"
         and now = "1000 + 300000" and later = "1000 + 300001",
       THEN conjunct2, THEN conjunct2, THEN conjunct2, THEN conjunct2, THEN conjunct1]
    by (simp add: stale_simps p formatted_loft_def)
  have u: "findOne sample_env ''users'' [(''_id'', toObjectId sample_env ''u1'')] members_store
             = (Inr (Some ann), members_store\<lparr>collectionCache := [''users'' \<mapsto> [ann]]\<rparr>)"
    "JObj (format_user ann) = formatted_ann"
    by (simp_all add: findOne_def read_items_def parse_stored_def storage_key_def
        members_store_def sample_envs selects_def get_def id_string_def toObjectId_def ann_def
        format_user_def put_def formatted_ann_def)
  have 8: "fst (userService_getById sample_env (1000 + 300000) (1000 + 300001) ''u1''
                  (stale_user, members_store))
             = formatted_ann"
    using result_cache_one_fixed_expiry
      [where cache = stale_user and c = stale_entry and st = members_store
         and id' = "''u1''" and e = sample_env and item = ann
         and st' = "members_store\<lparr>collectionCache := [''users'' \<mapsto> [ann]]\<rparr>"
         and now = "1000 + 300000" and later = "1000 + 300001",
       THEN conjunct2, THEN conjunct2, THEN conjunct2, THEN conjunct2, THEN conjunct2]
    by (simp add: stale_simps u)
  from 1 2 3 4 5 6 7 8 show ?thesis
    by (simp add: stale_simps)
qed

text \<open>Against the claim as stated: 5001 ms after it was stored the entry is still served
  (the empty list it holds, not the two designs a recomputation returns, as it does
  300000 ms after).\<close>

theorem ttl_5000_counterexample:
  "fst (designService_getAll (1000 + 5001) (1000 + 5002) (stale_cache, designs_store))
     = data stale_entry
   \<and> fst (designService_getAll (1000 + 300000) (1000 + 300001) (stale_cache, designs_store))
       = formatted_designs
   \<and> data stale_entry \<noteq> formatted_designs"
  by (simp add: designService_getAll_def cached_call_def fetch_all_def cache_hit_def stale_simps
      CACHE_EXPIRATION_def Let_def find_designs format_samples)

subsection \<open>Invalidation of cached results\<close>

text \<open>
  Claim C6, as the code has it: a non-empty key without an asterisk removes exactly its
  own entry; a pattern whose only asterisk is the last character removes exactly the
  entries whose key starts with what stands before it; a key with an asterisk anywhere
  is a pattern, and the prefix is the key without its first asterisk; no argument, or
  the empty key, removes every entry.
\<close>

theorem invalidate_by_key_prefix_or_all:
  "(k \<noteq> [] \<and> CHR ''*'' \<notin> set k \<longrightarrow> invalidateServiceCache (Some k) cache = cache(k := None))
   \<and> (CHR ''*'' \<notin> set p \<longrightarrow>
        invalidateServiceCache (Some (p @ ''*'')) cache
          = (\<lambda>cacheKey. if prefix p cacheKey then None else cache cacheKey))
   \<and> (CHR ''*'' \<in> set k \<longrightarrow>
        invalidateServiceCache (Some k) cache
          = (\<lambda>cacheKey. if prefix (remove1 (CHR ''*'') k) cacheKey then None else cache cacheKey))
   \<and> invalidateServiceCache None cache = Map.empty
   \<and> invalidateServiceCache (Some []) cache = Map.empty"
  by (auto simp add: invalidateServiceCache_def Let_def remove1_append)

text \<open>The theorem on the example of the specification: \<^verbatim>\<open>design_*\<close> removes
  \<^verbatim>\<open>design_1\<close> and \<^verbatim>\<open>design_2\<close> and keeps \<^verbatim>\<open>designs_getAll\<close>.\<close>

theorem invalidate_witness:
  "CHR ''*'' \<notin> set ''design_''
   \<and> invalidateServiceCache (Some ''design_*'') three_keys ''design_1'' = None
   \<and> invalidateServiceCache (Some ''design_*'') three_keys ''design_2'' = None
   \<and> invalidateServiceCache (Some ''design_*'') three_keys ''designs_getAll''
       = Some \<lparr>data = JStr ''C'', timestamp = 3\<rparr>
   \<and> invalidateServiceCache (Some ''design_1'') three_keys ''design_1'' = None
   \<and> invalidateServiceCache (Some ''design_1'') three_keys ''design_2''
       = Some \<lparr>data = JStr ''B'', timestamp = 2\<rparr>
   \<and> invalidateServiceCache None three_keys = Map.empty"
  using invalidate_by_key_prefix_or_all [of "''design_1''" three_keys "''design_''"]
  by (simp add: three_keys_def)

text \<open>Against the claim as stated: the pattern \<^verbatim>\<open>a*b*\<close> ends in the marker, the key
  \<^verbatim>\<open>a*bc\<close> starts with what stands before it, and the entry stays (the prefix the code
  uses is \<^verbatim>\<open>ab*\<close>); and the empty key removes an entry that is not its own.\<close>

theorem invalidate_counterexample:
  "prefix ''a*b'' ''a*bc''
   \<and> invalidateServiceCache (Some ''a*b*'') [''a*bc'' \<mapsto> stale_entry] ''a*bc'' = Some stale_entry
   \<and> invalidateServiceCache (Some []) [''k'' \<mapsto> stale_entry] ''k'' = None"
  by (simp add: invalidateServiceCache_def)

subsection \<open>The ordering operators\<close>















subsection \<open>\<^verbatim>\<open>updateOne\<close> changes the first match only\<close>










subsection \<open>A writer that fails\<close>

lemma stamp_setItem [simp]: "stamp (e\<lparr>setItem_throws := b\<rparr>) = stamp e"
  by (simp add: stamp_def fun_eq_iff)

lemma apply_update_setItem [simp]: "apply_update (e\<lparr>setItem_throws := b\<rparr>) = apply_update e"
  by (simp add: apply_update_def fun_eq_iff)

lemma refused_cache:
  "collectionCache (snd (mutate e name m st))
     = collectionCache (snd (mutate (e\<lparr>setItem_throws := False\<rparr>) name m st))"
  by (cases m)
    (simp_all add: insertOne_def insertMany_def updateOne_def deleteOne_def commit_shape
      cached_def committed_def Let_def split: sum.splits option.splits)

lemma stamp_hall: "stamp refusing_env 0 hall = hall_stamped" "stamp sample_env 0 hall = hall_stamped"
  by (simp_all add: stamp_def hall_def hall_stamped_def get_def put_def refusing_env_def
      sample_env_def Let_def show_nat.simps)

text \<open>
  Claim C9, as the code has it: a mutating operation that fails never changes the
  backing medium. When it fails before its write (the stored text does not parse, or
  the filter cannot be evaluated) the cache is unchanged too. When the write to the
  backing medium is refused, the cache entry of the collection has already been
  replaced: the cache is the one the successful operation leaves, the medium is the old
  one, and nothing rolls the cache back.
\<close>

theorem failed_write_keeps_storage:
  assumes "mutate e name m st = (Raised err, st')"
  shows "localStorage st' = localStorage st
         \<and> (err \<noteq> QuotaExceededError \<longrightarrow> st' = st)
         \<and> (err = QuotaExceededError \<longrightarrow>
              setItem_throws e
              \<and> st' = st\<lparr>collectionCache :=
                         collectionCache (snd (mutate (e\<lparr>setItem_throws := False\<rparr>) name m st))\<rparr>)"
proof -
  have sh: "shape e name st (Raised err) st'"
    using mutate_shape [of e name st m] assms by simp
  have c: "collectionCache st'
             = collectionCache (snd (mutate (e\<lparr>setItem_throws := False\<rparr>) name m st))"
    using refused_cache [of e name m st] assms by simp
  from sh consider
      (early) "err \<noteq> QuotaExceededError" "st' = st"
    | (refused) items where "err = QuotaExceededError" "setItem_throws e"
        "st' = cached name items st"
    by (auto simp add: shape_def)
  then show ?thesis
  proof cases
    case early
    then show ?thesis by simp
  next
    case refused
    have "collectionCache st' = (collectionCache st)(name \<mapsto> items)"
      using refused by (simp add: cached_def)
    with c have "collectionCache (snd (mutate (e\<lparr>setItem_throws := False\<rparr>) name m st))
                   = (collectionCache st)(name \<mapsto> items)"
      by simp
    then show ?thesis
      using refused by (simp add: cached_def)
  qed
qed

text \<open>The theorem at an \<^verbatim>\<open>insertOne\<close> into the empty store whose write is refused.\<close>

theorem failed_write_witness:
  "mutate refusing_env ''designs'' (InsertOne hall) empty_store
     = (Raised QuotaExceededError, cached ''designs'' [hall_stamped] empty_store)
   \<and> localStorage (cached ''designs'' [hall_stamped] empty_store) = localStorage empty_store
   \<and> setItem_throws refusing_env
   \<and> cached ''designs'' [hall_stamped] empty_store
       = empty_store\<lparr>collectionCache :=
           collectionCache (snd (mutate (refusing_env\<lparr>setItem_throws := False\<rparr>) ''designs''
                                   (InsertOne hall) empty_store))\<rparr>"
proof -
  have l: "load_items ''designs'' empty_store = Inr []"
    by (simp add: load_items_def parse_stored_def empty_store_def)
  have m: "mutate refusing_env ''designs'' (InsertOne hall) empty_store
             = (Raised QuotaExceededError, cached ''designs'' [hall_stamped] empty_store)"
    by (simp add: insertOne_def stamp_hall l commit_shape sample_envs Let_def)
  show ?thesis
    using failed_write_keeps_storage [OF m] m by simp
qed

text \<open>Against the claim as stated: the write of an \<^verbatim>\<open>insertOne\<close> into the empty store
  is refused, the medium is still empty, and the cache, empty before, holds the new
  document.\<close>

theorem failed_insert_counterexample:
  "fst (insertOne refusing_env ''designs'' hall empty_store) = Inl QuotaExceededError
   \<and> collectionCache empty_store ''designs'' = None
   \<and> collectionCache (snd (insertOne refusing_env ''designs'' hall empty_store)) ''designs''
       = Some [hall_stamped]
   \<and> localStorage (snd (insertOne refusing_env ''designs'' hall empty_store)) ''mock_designs''
       = None"
  by (simp add: insertOne_def stamp_hall load_items_def parse_stored_def empty_store_def
      storage_key_def commit_def sample_envs Let_def)

subsection \<open>A filter with an \<^verbatim>\<open>_id\<close>\<close>

lemma every_True: "every p xs = Inr True \<Longrightarrow> \<forall>x\<in>set xs. p x = Inr True"
  by (induction xs) (auto split: sum.splits if_splits)

text \<open>
  Claim C10, as the code has it: when the \<^verbatim>\<open>_id\<close> of the filter is truthy,
  \<^verbatim>\<open>findOne\<close>, \<^verbatim>\<open>updateOne\<close> and \<^verbatim>\<open>deleteOne\<close> select a document by its
  \<^verbatim>\<open>_id\<close> alone and read no other field of the filter: each does what it does for the
  filter that holds the \<^verbatim>\<open>_id\<close> only. An \<^verbatim>\<open>ObjectId\<close> on either side is
  replaced by its string and the two are then compared with \<^verbatim>\<open>===\<close>: the filter
  \<^verbatim>\<open>_id\<close> that is the \<^verbatim>\<open>ObjectId\<close> of \<open>s\<close>, or the non-empty string \<open>s\<close>,
  selects exactly the documents whose \<^verbatim>\<open>_id\<close> is the string \<open>s\<close> or the
  \<^verbatim>\<open>ObjectId\<close> of \<open>s\<close>; a number other than 0 selects the documents with that
  number. A filter whose \<^verbatim>\<open>_id\<close> is falsy (0, the empty string, \<^verbatim>\<open>null\<close>,
  \<^verbatim>\<open>false\<close>, or none) is matched field by field like any other: a document is
  selected only if every field of the filter matches it.
\<close>

theorem filter_id_decides_when_truthy:
  "(truthy (get query ''_id'') \<longrightarrow>
      selects rx query item
        = Inr (strict_eq (id_string (get item ''_id'')) (id_string (get query ''_id'')))
    \<and> findOne e name query st = findOne e name [(''_id'', get query ''_id'')] st
    \<and> updateOne e name query update st
        = updateOne e name [(''_id'', get query ''_id'')] update st
    \<and> deleteOne e name query st = deleteOne e name [(''_id'', get query ''_id'')] st)
   \<and> (get query ''_id'' = JObjectId s \<or> (get query ''_id'' = JStr s \<and> s \<noteq> []) \<longrightarrow>
        selects rx query item
          = Inr (get item ''_id'' = JStr s \<or> get item ''_id'' = JObjectId s))
   \<and> (get query ''_id'' = JNum n \<and> n \<noteq> 0 \<longrightarrow>
        selects rx query item = Inr (get item ''_id'' = JNum n))
   \<and> (\<not> truthy (get query ''_id'') \<longrightarrow>
        selects rx query item = fields_match rx query item
      \<and> (selects rx query item = Inr True \<longrightarrow>
           (\<forall>k\<in>set (keys query). field_matches rx query item k = Inr True)))"
proof -
  have 1: "selects rx query item
             = Inr (strict_eq (id_string (get item ''_id'')) (id_string (get query ''_id'')))
           \<and> findOne e name query st = findOne e name [(''_id'', get query ''_id'')] st
           \<and> updateOne e name query update st
               = updateOne e name [(''_id'', get query ''_id'')] update st
           \<and> deleteOne e name query st = deleteOne e name [(''_id'', get query ''_id'')] st"
    if t: "truthy (get query ''_id'')"
  proof -
    have sel: "selects rx query = selects rx [(''_id'', get query ''_id'')]" for rx
      using t by (auto simp add: selects_def get_def fun_eq_iff)
    have "selects rx query item
            = Inr (strict_eq (id_string (get item ''_id'')) (id_string (get query ''_id'')))"
      using t by (simp add: selects_def)
    moreover have "findOne e name query st = findOne e name [(''_id'', get query ''_id'')] st"
      unfolding findOne_def sel by (rule refl)
    moreover have "updateOne e name query update st
                     = updateOne e name [(''_id'', get query ''_id'')] update st"
      unfolding updateOne_def sel by (rule refl)
    moreover have "deleteOne e name query st
                     = deleteOne e name [(''_id'', get query ''_id'')] st"
      unfolding deleteOne_def sel by (rule refl)
    ultimately show ?thesis by simp
  qed
  have 2: "selects rx query item
             = Inr (get item ''_id'' = JStr s \<or> get item ''_id'' = JObjectId s)"
    if "get query ''_id'' = JObjectId s \<or> (get query ''_id'' = JStr s \<and> s \<noteq> [])"
    using that by (cases "get item ''_id''") (auto simp add: selects_def id_string_def)
  have 3: "selects rx query item = Inr (get item ''_id'' = JNum n)"
    if "get query ''_id'' = JNum n \<and> n \<noteq> 0"
    using that by (cases "get item ''_id''") (auto simp add: selects_def id_string_def)
  have 4: "selects rx query item = fields_match rx query item
           \<and> (selects rx query item = Inr True \<longrightarrow>
                (\<forall>k\<in>set (keys query). field_matches rx query item k = Inr True))"
    if "\<not> truthy (get query ''_id'')"
    using that every_True [of "field_matches rx query item" "keys query"]
    by (simp add: selects_def fields_match_def)
  from 1 2 3 4 show ?thesis by blast
qed

text \<open>The theorem at the filter \<^verbatim>\<open>{_id: "d2", category: "Kitchen"}\<close>: the living room
  design has that \<^verbatim>\<open>_id\<close> and another category, and it is selected; at the filter
  \<^verbatim>\<open>{_id: toObjectId("d2")}\<close> that the services use; at a stored \<^verbatim>\<open>ObjectId\<close>
  sought by its string; and at the filter \<^verbatim>\<open>{_id: 0, name: "x"}\<close>, which is matched
  field by field.\<close>

theorem filter_id_witness:
  "truthy (get d2_kitchen ''_id'')
   \<and> selects no_RegExp d2_kitchen living = Inr True
   \<and> fields_match no_RegExp d2_kitchen living = Inr False
   \<and> fst (findOne sample_env ''designs'' d2_kitchen designs_store) = Inr (Some living)
   \<and> selects no_RegExp [(''_id'', toObjectId sample_env ''d2'')] living = Inr True
   \<and> selects no_RegExp [(''_id'', toObjectId sample_env ''d2'')] kitchen = Inr False
   \<and> selects no_RegExp [(''_id'', JStr ''d1'')] [(''_id'', JObjectId ''d1'')] = Inr True
   \<and> \<not> truthy (get zero_x ''_id'')
   \<and> selects no_RegExp zero_x zero_y = fields_match no_RegExp zero_x zero_y
   \<and> fields_match no_RegExp zero_x zero_y = Inr False"
proof -
  have t: "truthy (get d2_kitchen ''_id'')"
    by (simp add: get_def d2_kitchen_def)
  have f: "fields_match no_RegExp d2_kitchen living = Inr False"
    by (simp add: fields_match_def keys_def field_matches_def typeof_object_def get_def
        d2_kitchen_def living_def)
  have i: "get d2_kitchen ''_id'' = JStr ''d2''" "get living ''_id'' = JStr ''d2''"
    "get kitchen ''_id'' = JStr ''d1''"
    by (simp_all add: get_def d2_kitchen_def living_def kitchen_def)
  have s: "selects no_RegExp [(''_id'', JStr ''d2'')] kitchen = Inr False"
    "selects no_RegExp [(''_id'', JStr ''d2'')] living = Inr True"
    by (simp_all add: selects_def get_def id_string_def kitchen_def living_def)
  have o: "findOne sample_env ''designs'' [(''_id'', JStr ''d2'')] designs_store
             = (Inr (Some living), designs_cached)"
    by (simp add: findOne_def find_designs [unfolded find_toArray_def] sample_envs s)
  note truthy_part = filter_id_decides_when_truthy
    [of d2_kitchen no_RegExp living sample_env "''designs''" designs_store, THEN conjunct1]
  have 1: "selects no_RegExp d2_kitchen living = Inr True"
    using truthy_part t by (simp add: i id_string_def)
  have 2: "fst (findOne sample_env ''designs'' d2_kitchen designs_store) = Inr (Some living)"
    using truthy_part t by (simp add: i o)
  have 3: "selects no_RegExp [(''_id'', toObjectId sample_env ''d2'')] living = Inr True"
    using filter_id_decides_when_truthy
      [where query = "[(''_id'', toObjectId sample_env ''d2'')]" and s = "''d2''"
         and rx = no_RegExp and item = living, THEN conjunct2, THEN conjunct1]
    by (simp add: toObjectId_def get_def [of "[(''_id'', JObjectId ''d2'')]"] i)
  have 4: "selects no_RegExp [(''_id'', toObjectId sample_env ''d2'')] kitchen = Inr False"
    using filter_id_decides_when_truthy
      [where query = "[(''_id'', toObjectId sample_env ''d2'')]" and s = "''d2''"
         and rx = no_RegExp and item = kitchen, THEN conjunct2, THEN conjunct1]
    by (simp add: toObjectId_def get_def [of "[(''_id'', JObjectId ''d2'')]"] i)
  have 5: "selects no_RegExp [(''_id'', JStr ''d1'')] [(''_id'', JObjectId ''d1'')] = Inr True"
    using filter_id_decides_when_truthy
      [where query = "[(''_id'', JStr ''d1'')]" and s = "''d1''"
         and rx = no_RegExp and item = "[(''_id'', JObjectId ''d1'')]",
       THEN conjunct2, THEN conjunct1]
    by (simp add: get_def)
  have z: "\<not> truthy (get zero_x ''_id'')"
    by (simp add: get_def zero_x_def)
  have 6: "selects no_RegExp zero_x zero_y = fields_match no_RegExp zero_x zero_y"
    using filter_id_decides_when_truthy
      [where query = zero_x and rx = no_RegExp and item = zero_y,
       THEN conjunct2, THEN conjunct2, THEN conjunct2] z
    by simp
  have 7: "fields_match no_RegExp zero_x zero_y = Inr False"
    by (simp add: fields_match_def keys_def field_matches_def typeof_object_def get_def
        zero_x_def zero_y_def)
  from t f 1 2 3 4 5 z 6 7 show ?thesis by simp
qed

text \<open>Against the claim as stated: the filter \<^verbatim>\<open>{_id: 0, name: "x"}\<close> contains an
  \<^verbatim>\<open>_id\<close>, the stored document has the same \<^verbatim>\<open>_id\<close> and another name, and it is
  not selected: 0 is falsy, so every field of the filter is compared.\<close>

theorem falsy_id_counterexample:
  "strict_eq (id_string (get zero_y ''_id'')) (id_string (get zero_x ''_id''))
   \<and> selects no_RegExp zero_x zero_y = Inr False
   \<and> fst (findOne sample_env ''users'' zero_x users_store) = Inr None"
  by (simp add: selects_def get_def zero_x_def zero_y_def id_string_def fields_match_def keys_def
      field_matches_def typeof_object_def findOne_def read_items_def parse_stored_def
      storage_key_def users_store_def sample_env_def)

end
